theory Spec2Isabelle
  imports Main
begin

section \<open>JavaScript numbers and Date objects\<close>

text \<open>
  Every number the two modules compute with is a time value, a difference of time values
  or the result of \<^verbatim>\<open>parseInt\<close>: an integer or \<^verbatim>\<open>NaN\<close>. A number is an
  \<open>int option\<close>, \<open>None\<close> being \<^verbatim>\<open>NaN\<close>; arithmetic is exact (IEEE doubles agree
  with it below \<open>2 ^ 53\<close>). A \<^verbatim>\<open>Date\<close> object is its time value: milliseconds since
  the epoch, clipped to the range ECMAScript allows, or \<^verbatim>\<open>NaN\<close> (the Invalid Date).
\<close>

type_synonym number = "int option"
type_synonym jsdate = "int option"

definition num_add :: "number \<Rightarrow> number \<Rightarrow> number" where
  "num_add a b = (case a of None \<Rightarrow> None | Some x \<Rightarrow> (case b of None \<Rightarrow> None | Some y \<Rightarrow> Some (x + y)))"

definition num_sub :: "number \<Rightarrow> number \<Rightarrow> number" where
  "num_sub a b = (case a of None \<Rightarrow> None | Some x \<Rightarrow> (case b of None \<Rightarrow> None | Some y \<Rightarrow> Some (x - y)))"

definition num_mul :: "number \<Rightarrow> number \<Rightarrow> number" where
  "num_mul a b = (case a of None \<Rightarrow> None | Some x \<Rightarrow> (case b of None \<Rightarrow> None | Some y \<Rightarrow> Some (x * y)))"

text \<open>\<^verbatim>\<open>a < b\<close> and \<^verbatim>\<open>a > b\<close> on numbers: false as soon as one side is \<^verbatim>\<open>NaN\<close>.\<close>

definition num_lt :: "number \<Rightarrow> number \<Rightarrow> bool" where
  "num_lt a b = (case a of None \<Rightarrow> False | Some x \<Rightarrow> (case b of None \<Rightarrow> False | Some y \<Rightarrow> x < y))"

definition num_gt :: "number \<Rightarrow> number \<Rightarrow> bool" where
  "num_gt a b = (case a of None \<Rightarrow> False | Some x \<Rightarrow> (case b of None \<Rightarrow> False | Some y \<Rightarrow> x > y))"

definition isNaN :: "number \<Rightarrow> bool" where
  "isNaN a = (a = None)"

definition msPerDay :: int where "msPerDay = 86400000"
definition msPerHour :: int where "msPerHour = 3600000"
definition msPerMinute :: int where "msPerMinute = 60000"
definition maxTime :: int where "maxTime = 8640000000000000"

definition TimeClip :: "int \<Rightarrow> jsdate" where
  "TimeClip t = (if \<bar>t\<bar> > maxTime then None else Some t)"

text \<open>\<^verbatim>\<open>new Date(value)\<close> for a number, and \<^verbatim>\<open>date.getTime()\<close>.\<close>

definition newDate :: "number \<Rightarrow> jsdate" where
  "newDate v = (case v of None \<Rightarrow> None | Some t \<Rightarrow> TimeClip t)"

definition getTime :: "jsdate \<Rightarrow> number" where
  "getTime d = d"

text \<open>
  The time zone of the process is ECMAScript's \<^verbatim>\<open>LocalTZA(t, isUTC)\<close>: the offset in
  milliseconds in force at the UTC instant \<open>t\<close> (\<open>isUTC\<close> true) or at the local time
  \<open>t\<close> (\<open>isUTC\<close> false). It is a parameter of every function that reads or writes local
  time fields.
\<close>

type_synonym tzone = "int \<Rightarrow> bool \<Rightarrow> int"

definition fixedZone :: "int \<Rightarrow> tzone" where
  "fixedZone off = (\<lambda>t isUTC. off)"

definition LocalTime :: "tzone \<Rightarrow> int \<Rightarrow> int" where
  "LocalTime tz t = t + tz t True"

definition UTC :: "tzone \<Rightarrow> int \<Rightarrow> int" where
  "UTC tz t = t - tz t False"

definition Day :: "int \<Rightarrow> int" where
  "Day t = t div msPerDay"

definition TimeWithinDay :: "int \<Rightarrow> int" where
  "TimeWithinDay t = t mod msPerDay"

definition MakeTime :: "int \<Rightarrow> int \<Rightarrow> int \<Rightarrow> int \<Rightarrow> int" where
  "MakeTime h m s ms = h * msPerHour + m * msPerMinute + s * 1000 + ms"

definition MakeDate :: "int \<Rightarrow> int \<Rightarrow> int" where
  "MakeDate day time = day * msPerDay + time"

text \<open>\<^verbatim>\<open>date.setHours(h, m, s, ms)\<close>: the local day is kept, the time within it replaced.\<close>

definition setHours :: "tzone \<Rightarrow> jsdate \<Rightarrow> int \<Rightarrow> int \<Rightarrow> int \<Rightarrow> int \<Rightarrow> jsdate" where
  "setHours tz d h m s ms =
     (case d of None \<Rightarrow> None
      | Some t \<Rightarrow> TimeClip (UTC tz (MakeDate (Day (LocalTime tz t)) (MakeTime h m s ms))))"

definition getHours :: "tzone \<Rightarrow> jsdate \<Rightarrow> number" where
  "getHours tz d = (case d of None \<Rightarrow> None | Some t \<Rightarrow> Some ((LocalTime tz t div msPerHour) mod 24))"

text \<open>
  \<^verbatim>\<open>d.setDate(d.getDate() + 1)\<close>. ECMAScript computes
  \<^verbatim>\<open>MakeDay(YearFromTime(t), MonthFromTime(t), DateFromTime(t) + 1)\<close> for the local time
  \<open>t\<close>, which is the day number after \<open>Day t\<close>; the time within the day is kept.
\<close>

definition setDate_getDate_plus1 :: "tzone \<Rightarrow> jsdate \<Rightarrow> jsdate" where
  "setDate_getDate_plus1 tz d =
     (case d of None \<Rightarrow> None
      | Some t \<Rightarrow> TimeClip (UTC tz (MakeDate (Day (LocalTime tz t) + 1) (TimeWithinDay (LocalTime tz t)))))"

text \<open>
  \<^verbatim>\<open>date.toISOString()\<close> raises a \<^verbatim>\<open>RangeError\<close> on the Invalid Date. The string it
  writes is represented by the instant it denotes. \<^verbatim>\<open>TypeError\<close> is what a method call on
  \<^verbatim>\<open>undefined\<close> raises, \<open>Error\<close> any other exception.
\<close>

datatype exn = RangeError | TypeError | Error

definition toISOString :: "jsdate \<Rightarrow> exn + int" where
  "toISOString d = (case d of None \<Rightarrow> Inl RangeError | Some t \<Rightarrow> Inr t)"

text \<open>
  A string handed to \<^verbatim>\<open>new Date(string)\<close> is represented by what \<^verbatim>\<open>Date.parse\<close>
  reads in it: the empty string; an ISO date-only form (\<^verbatim>\<open>YYYY-MM-DD\<close>), by the day
  number of that date; an ISO date-time with \<^verbatim>\<open>Z\<close> or an offset, by its instant; an ISO
  date-time with no offset, by its local time value; any other string, which is not a date.
  ECMAScript reads the date-only form as UTC and the offset-less date-time as local time.
\<close>

datatype date_string =
    EmptyStr
  | DateOnly int
  | DateTime int
  | LocalDateTime int
  | OtherStr

definition Date_parse :: "tzone \<Rightarrow> date_string \<Rightarrow> jsdate" where
  "Date_parse tz s =
     (case s of
        EmptyStr \<Rightarrow> None
      | DateOnly d \<Rightarrow> TimeClip (MakeDate d 0)
      | DateTime t \<Rightarrow> TimeClip t
      | LocalDateTime t \<Rightarrow> TimeClip (UTC tz t)
      | OtherStr \<Rightarrow> None)"

section \<open>Availability check (checkAvailability, generateSuggestedTimes)\<close>

text \<open>
  A calendar event as the calendar API lists it: \<^verbatim>\<open>start\<close> and \<^verbatim>\<open>end\<close> may be absent,
  and each holds \<^verbatim>\<open>dateTime\<close> (a timed event) or \<^verbatim>\<open>date\<close> (an all-day event).
\<close>

record event_time =
  dateTime :: "date_string option"
  date :: "date_string option"

record gcal_event =
  summary :: string
  ev_start :: "event_time option"
  ev_end :: "event_time option"

text \<open>\<^verbatim>\<open>a || b\<close> for a string \<open>a\<close> that may be \<^verbatim>\<open>undefined\<close>: the empty string is falsy.\<close>

fun js_or :: "date_string option \<Rightarrow> date_string \<Rightarrow> date_string" where
  "js_or None b = b"
| "js_or (Some EmptyStr) b = b"
| "js_or (Some s) b = s"

text \<open>\<^verbatim>\<open>new Date(x?.dateTime || x?.date || '')\<close>\<close>

definition event_instant :: "tzone \<Rightarrow> event_time option \<Rightarrow> jsdate" where
  "event_instant tz x =
     Date_parse tz (case x of None \<Rightarrow> EmptyStr
                    | Some et \<Rightarrow> js_or (dateTime et) (js_or (date et) EmptyStr))"

definition eventStart :: "tzone \<Rightarrow> gcal_event \<Rightarrow> jsdate" where
  "eventStart tz event = event_instant tz (ev_start event)"

definition eventEnd :: "tzone \<Rightarrow> gcal_event \<Rightarrow> jsdate" where
  "eventEnd tz event = event_instant tz (ev_end event)"

text \<open>
  The overlap test, written inline twice in the source
  (\<^verbatim>\<open>eventStart < requestedEnd && eventEnd > requestedStart\<close> and
  \<^verbatim>\<open>eventStart < testEnd && eventEnd > testStart\<close>): an interval is a pair (start, end).
\<close>

definition overlaps :: "jsdate \<times> jsdate \<Rightarrow> jsdate \<times> jsdate \<Rightarrow> bool" where
  "overlaps a b = (num_lt (fst a) (snd b) \<and> num_gt (snd a) (fst b))"

text \<open>
  The loop \<^verbatim>\<open>for (let hour = 9; hour <= 17; hour += 2)\<close> of generateSuggestedTimes, with
  the list of suggestions collected so far. Each entry is the instant of the ISO string pushed.
\<close>

function scanHours :: "tzone \<Rightarrow> jsdate \<Rightarrow> number \<Rightarrow> gcal_event list \<Rightarrow> int \<Rightarrow> int list \<Rightarrow> exn + int list" where
  "scanHours tz sameDay duration existingEvents hour suggestions =
     (if hour \<le> 17 then
        (let testStart = setHours tz sameDay hour 0 0 0;
             testEnd = newDate (num_add (getTime testStart) duration);
             hasConflict = list_ex (\<lambda>event. overlaps (eventStart tz event, eventEnd tz event) (testStart, testEnd))
                             existingEvents
         in if \<not> hasConflict then
              (case toISOString testStart of
                 Inl e \<Rightarrow> Inl e
               | Inr s \<Rightarrow>
                   (if length (suggestions @ [s]) \<ge> 3 then Inr (suggestions @ [s])
                    else scanHours tz sameDay duration existingEvents (hour + 2) (suggestions @ [s])))
            else scanHours tz sameDay duration existingEvents (hour + 2) suggestions)
      else Inr suggestions)"
  by pat_completeness auto
termination
  by (relation "measure (\<lambda>(tz, sameDay, duration, existingEvents, hour, suggestions). nat (19 - hour))") auto

definition generateSuggestedTimes :: "tzone \<Rightarrow> date_string \<Rightarrow> date_string \<Rightarrow> gcal_event list \<Rightarrow> exn + int list" where
  "generateSuggestedTimes tz originalStart originalEnd existingEvents =
     (let originalStartDate = Date_parse tz originalStart;
          originalEndDate = Date_parse tz originalEnd;
          duration = num_sub (getTime originalEndDate) (getTime originalStartDate);
          sameDay = setHours tz originalStartDate 9 0 0 0
      in case scanHours tz sameDay duration existingEvents 9 [] of
           Inl e \<Rightarrow> Inl e
         | Inr suggestions \<Rightarrow>
             (if length suggestions = 0 then
                (let nextDay = setHours tz (setDate_getDate_plus1 tz originalStartDate) 9 0 0 0
                 in case toISOString nextDay of
                      Inl e \<Rightarrow> Inl e
                    | Inr s \<Rightarrow> Inr (suggestions @ [s]))
              else Inr suggestions))"

text \<open>
  The outcome of an awaited call to an external service: it throws (or rejects), or it
  returns a value.
\<close>

datatype 'a call = Throws | Returns 'a

record AvailabilityCheck =
  isAvailable :: bool
  conflicts :: "gcal_event list"
  suggestedTimes :: "int list option"

text \<open>
  checkAvailability, with the outcome of \<^verbatim>\<open>calendar.events.list\<close> as an input
  (\<^verbatim>\<open>response.data.items\<close> may be absent) and the suggestion search it calls as a
  parameter. Whatever is thrown inside the \<^verbatim>\<open>try\<close> block, by the calendar call or by the
  suggestion search, ends in the \<^verbatim>\<open>catch\<close> block.
\<close>

definition checkAvailability_with ::
  "(tzone \<Rightarrow> date_string \<Rightarrow> date_string \<Rightarrow> gcal_event list \<Rightarrow> exn + int list) \<Rightarrow>
   tzone \<Rightarrow> gcal_event list option call \<Rightarrow> date_string \<Rightarrow> date_string \<Rightarrow> AvailabilityCheck" where
  "checkAvailability_with suggest tz listing startTime endTime =
     (case listing of
        Throws \<Rightarrow> \<lparr>isAvailable = True, conflicts = [], suggestedTimes = None\<rparr>
      | Returns items \<Rightarrow>
          (let existingEvents = (case items of None \<Rightarrow> [] | Some xs \<Rightarrow> xs)
           in if length existingEvents = 0 then
                \<lparr>isAvailable = True, conflicts = [], suggestedTimes = None\<rparr>
              else
                (let conflicting = filter (\<lambda>event.
                       let requestedStart = Date_parse tz startTime;
                           requestedEnd = Date_parse tz endTime
                       in overlaps (eventStart tz event, eventEnd tz event) (requestedStart, requestedEnd))
                     existingEvents
                 in if length conflicting = 0 then
                      \<lparr>isAvailable = True, conflicts = [], suggestedTimes = None\<rparr>
                    else
                      (case suggest tz startTime endTime existingEvents of
                         Inl e \<Rightarrow> \<lparr>isAvailable = True, conflicts = [], suggestedTimes = None\<rparr>
                       | Inr suggested \<Rightarrow>
                           \<lparr>isAvailable = False, conflicts = conflicting,
                            suggestedTimes = Some suggested\<rparr>))))"

definition checkAvailability ::
  "tzone \<Rightarrow> gcal_event list option call \<Rightarrow> date_string \<Rightarrow> date_string \<Rightarrow> AvailabilityCheck" where
  "checkAvailability = checkAvailability_with generateSuggestedTimes"


subsection \<open>Vocabulary for the properties of the availability check\<close>









text \<open>
  The specification's reading of an all-day event, for comparison with the code: local
  midnight of day number \<open>day\<close> in the zone \<open>tz\<close>, as a UTC instant.
\<close>

definition spec_localMidnight :: "tzone \<Rightarrow> int \<Rightarrow> int" where
  "spec_localMidnight tz day = UTC tz (MakeDate day 0)"

section \<open>Strings and regular expressions\<close>

text \<open>
  A text is a string of UTF-16 code units below 256: a \<open>char\<close> is the code unit of that
  number (the Latin-1 characters). \<open>isSpace\<close> is what \<^verbatim>\<open>\s\<close>, \<^verbatim>\<open>trim\<close> and
  \<^verbatim>\<open>parseInt\<close> treat as white space among them: TAB, LF, VT, FF, CR, the space and the
  no-break space U+00A0.
\<close>

definition isSpace :: "char \<Rightarrow> bool" where
  "isSpace c = (c \<in> set [CHR 0x09, CHR 0x0A, CHR 0x0B, CHR 0x0C, CHR 0x0D, CHR '' '', CHR 0xA0])"

definition isDigit :: "char \<Rightarrow> bool" where
  "isDigit c = (c \<in> set ''0123456789'')"

definition isAlpha :: "char \<Rightarrow> bool" where
  "isAlpha c = (c \<in> set ''abcdefghijklmnopqrstuvwxyzABCDEFGHIJKLMNOPQRSTUVWXYZ'')"

text \<open>
  Case mapping. The upper-case letters below 256 are A to Z and U+00C0 to U+00DE without the
  multiplication sign U+00D7; each has its lower-case letter 32 code units above it.
  \<^verbatim>\<open>toLowerCase\<close> maps the former to the latter and changes nothing else.
  \<^verbatim>\<open>toUpperCase\<close> maps the latter to the former, and three more characters, whose
  upper-case forms are not single code units below 256: the micro sign U+00B5 (to U+039C),
  the sharp s U+00DF (to the two letters SS) and U+00FF (to U+0178); so its result on one
  character is a list of code units, given as numbers.
\<close>

definition upperCaseLetters :: string where
  "upperCaseLetters = ''ABCDEFGHIJKLMNOPQRSTUVWXYZ'' @
     [CHR 0xC0, CHR 0xC1, CHR 0xC2, CHR 0xC3, CHR 0xC4, CHR 0xC5, CHR 0xC6, CHR 0xC7,
     CHR 0xC8, CHR 0xC9, CHR 0xCA, CHR 0xCB, CHR 0xCC, CHR 0xCD, CHR 0xCE, CHR 0xCF, CHR
     0xD0, CHR 0xD1, CHR 0xD2, CHR 0xD3, CHR 0xD4, CHR 0xD5, CHR 0xD6, CHR 0xD8, CHR
     0xD9, CHR 0xDA, CHR 0xDB, CHR 0xDC, CHR 0xDD, CHR 0xDE]"

definition lowerCaseLetters :: string where
  "lowerCaseLetters = ''abcdefghijklmnopqrstuvwxyz'' @
     [CHR 0xE0, CHR 0xE1, CHR 0xE2, CHR 0xE3, CHR 0xE4, CHR 0xE5, CHR 0xE6, CHR 0xE7,
     CHR 0xE8, CHR 0xE9, CHR 0xEA, CHR 0xEB, CHR 0xEC, CHR 0xED, CHR 0xEE, CHR 0xEF, CHR
     0xF0, CHR 0xF1, CHR 0xF2, CHR 0xF3, CHR 0xF4, CHR 0xF5, CHR 0xF6, CHR 0xF8, CHR
     0xF9, CHR 0xFA, CHR 0xFB, CHR 0xFC, CHR 0xFD, CHR 0xFE]"

definition lower :: "char \<Rightarrow> char" where
  "lower c = (case map_of (zip upperCaseLetters lowerCaseLetters) c of Some l \<Rightarrow> l | None \<Rightarrow> c)"

definition toLowerCase :: "string \<Rightarrow> string" where
  "toLowerCase s = map lower s"

definition utf16 :: "string \<Rightarrow> nat list" where
  "utf16 s = map of_char s"

definition toUpperCase_char :: "char \<Rightarrow> nat list" where
  "toUpperCase_char c =
     (if c = CHR 0xB5 then [0x39C]
      else if c = CHR 0xDF then [0x53, 0x53]
      else if c = CHR 0xFF then [0x178]
      else utf16 [case map_of (zip lowerCaseLetters upperCaseLetters) c of Some u \<Rightarrow> u | None \<Rightarrow> c])"

text \<open>
  The canonical form under which a regular expression with the \<^verbatim>\<open>i\<close> flag (and no
  \<^verbatim>\<open>u\<close> flag) compares characters: the upper-case form when it is one code unit, the
  character itself otherwise. The canonical forms of U+00B5 and U+00FF lie above 255 and
  are the canonical form of no other character below 256, so here the two stand for
  themselves.
\<close>

definition canonicalize :: "char \<Rightarrow> char" where
  "canonicalize c = (case map_of (zip lowerCaseLetters upperCaseLetters) c of Some u \<Rightarrow> u | None \<Rightarrow> c)"

definition trim :: "string \<Rightarrow> string" where
  "trim s = rev (dropWhile isSpace (rev (dropWhile isSpace s)))"

text \<open>
  \<^verbatim>\<open>s.split(sep)\<close> for a one-character separator (an empty string gives one empty piece),
  \<^verbatim>\<open>xs.join(sep)\<close> and \<^verbatim>\<open>s.includes(p)\<close>.
\<close>

fun split_on :: "char \<Rightarrow> string \<Rightarrow> string list" where
  "split_on sep [] = [[]]"
| "split_on sep (x # xs) =
     (if x = sep then [] # split_on sep xs
      else (case split_on sep xs of [] \<Rightarrow> [[x]] | w # ws \<Rightarrow> (x # w) # ws))"

fun join_with :: "'a list \<Rightarrow> 'a list list \<Rightarrow> 'a list" where
  "join_with sep [] = []"
| "join_with sep [w] = w"
| "join_with sep (w # ws) = w @ sep @ join_with sep ws"

fun str_includes :: "string \<Rightarrow> string \<Rightarrow> bool" where
  "str_includes [] p = (p = [])"
| "str_includes (x # xs) p = (take (length p) (x # xs) = p \<or> str_includes xs p)"

text \<open>
  \<^verbatim>\<open>parseInt(s)\<close> with no radix argument: leading white space, an optional sign, the
  prefix \<^verbatim>\<open>0x\<close> or \<^verbatim>\<open>0X\<close> for radix 16, then the longest run of digits of the radix;
  \<^verbatim>\<open>NaN\<close> when there is none.
\<close>

definition isHexDigit :: "char \<Rightarrow> bool" where
  "isHexDigit c = (c \<in> set ''0123456789abcdefABCDEF'')"

definition digitOf :: "char \<Rightarrow> int" where
  "digitOf c =
     (case map_of (zip ''0123456789abcdefABCDEF''
                     [0, 1, 2, 3, 4, 5, 6, 7, 8, 9, 10, 11, 12, 13, 14, 15, 10, 11, 12, 13, 14, 15]) c of
        Some d \<Rightarrow> d | None \<Rightarrow> 0)"

fun digitsValue :: "int \<Rightarrow> int \<Rightarrow> string \<Rightarrow> int" where
  "digitsValue radix acc [] = acc"
| "digitsValue radix acc (c # cs) = digitsValue radix (radix * acc + digitOf c) cs"

definition parseInt :: "string \<Rightarrow> int option" where
  "parseInt s =
     (let t = dropWhile isSpace s;
          negative = (case t of [] \<Rightarrow> False | c # r \<Rightarrow> c = CHR ''-'');
          u = (case t of [] \<Rightarrow> [] | c # r \<Rightarrow> if c = CHR ''-'' \<or> c = CHR ''+'' then r else t);
          hex = (case u of
                   [] \<Rightarrow> False
                 | a # r \<Rightarrow> (case r of [] \<Rightarrow> False
                             | b # q \<Rightarrow> a = CHR ''0'' \<and> (b = CHR ''x'' \<or> b = CHR ''X'')));
          ds = (if hex then takeWhile isHexDigit (drop 2 u) else takeWhile isDigit u);
          v = digitsValue (if hex then 16 else 10) 0 ds
      in if ds = [] then None else Some (if negative then - v else v))"

text \<open>
  The regular expressions of the source, as syntax trees: character classes
  \<^verbatim>\<open>\d\<close>, \<^verbatim>\<open>\s\<close>, \<^verbatim>\<open>[a-zA-Z\s]\<close>, \<^verbatim>\<open>[a-zA-Z0-9\s]\<close>, \<^verbatim>\<open>[\s\S]\<close>; literals,
  exact (\<open>Lit\<close>) or under the \<^verbatim>\<open>i\<close> flag (\<open>LitI\<close>); sequence, alternation, \<^verbatim>\<open>?\<close>;
  the greedy \<^verbatim>\<open>*\<close> and \<^verbatim>\<open>+\<close> and the lazy \<^verbatim>\<open>*?\<close> and \<^verbatim>\<open>+?\<close> of a class; capture
  groups by number; \<^verbatim>\<open>^\<close> and \<^verbatim>\<open>$\<close>.
\<close>

datatype cls = Digit | Space | AlphaSpace | AlnumSpace | AnyChar

fun in_cls :: "cls \<Rightarrow> char \<Rightarrow> bool" where
  "in_cls Digit c = isDigit c"
| "in_cls Space c = isSpace c"
| "in_cls AlphaSpace c = (isAlpha c \<or> isSpace c)"
| "in_cls AlnumSpace c = (isAlpha c \<or> isDigit c \<or> isSpace c)"
| "in_cls AnyChar c = True"

datatype regex =
    Lit string
  | LitI string
  | Cls cls
  | Seq regex regex
  | Alt regex regex
  | Opt regex
  | Star cls
  | Plus cls
  | LazyStar cls
  | LazyPlus cls
  | Grp nat regex
  | Bol
  | Eol

fun seqs :: "regex list \<Rightarrow> regex" where
  "seqs [] = Lit []"
| "seqs [r] = r"
| "seqs (r # rs) = Seq r (seqs rs)"

fun alts :: "regex list \<Rightarrow> regex" where
  "alts [] = Lit []"
| "alts [r] = r"
| "alts (r # rs) = Alt r (alts rs)"

fun lit_prefix :: "bool \<Rightarrow> string \<Rightarrow> string \<Rightarrow> bool" where
  "lit_prefix ci [] inp = True"
| "lit_prefix ci (c # cs) [] = False"
| "lit_prefix ci (c # cs) (x # xs) =
     ((if ci then canonicalize x = canonicalize c else x = c) \<and> lit_prefix ci cs xs)"

text \<open>
  The backtracking matcher of ECMAScript: \<open>run\<close> matches a stack of pending items against
  the input and returns the first success in priority order (the left alternative first,
  greedy quantifiers longest first, lazy ones shortest first) with the input left over and
  the captures. \<open>pos\<close> is the number of characters before the current position.
  \<open>re_match\<close> is \<^verbatim>\<open>text.match(regex)\<close> for a regex without the \<^verbatim>\<open>g\<close> flag: the match at
  the leftmost position that has one, as the matched text (\<^verbatim>\<open>match[0]\<close>) and the groups.
\<close>

datatype item = Re regex | EndGrp nat string

type_synonym caps = "(nat \<times> string) list"

fun weight :: "regex \<Rightarrow> nat" where
  "weight (Seq a b) = Suc (weight a + weight b)"
| "weight (Alt a b) = Suc (weight a + weight b)"
| "weight (Opt a) = Suc (weight a)"
| "weight (Grp n a) = Suc (Suc (weight a))"
| "weight (Plus c) = 3"
| "weight (LazyPlus c) = 3"
| "weight r = 1"

fun item_weight :: "item \<Rightarrow> nat" where
  "item_weight (Re r) = weight r"
| "item_weight (EndGrp n s) = 1"

function (sequential) run :: "item list \<Rightarrow> nat \<Rightarrow> string \<Rightarrow> caps \<Rightarrow> (string \<times> caps) option" where
  "run [] pos inp caps = Some (inp, caps)"
| "run (EndGrp n opened # k) pos inp caps =
     run k pos inp ((n, take (length opened - length inp) opened) # caps)"
| "run (Re (Lit s) # k) pos inp caps =
     (if lit_prefix False s inp then run k (pos + length s) (drop (length s) inp) caps else None)"
| "run (Re (LitI s) # k) pos inp caps =
     (if lit_prefix True s inp then run k (pos + length s) (drop (length s) inp) caps else None)"
| "run (Re (Cls c) # k) pos inp caps =
     (case inp of [] \<Rightarrow> None
      | x # xs \<Rightarrow> if in_cls c x then run k (Suc pos) xs caps else None)"
| "run (Re (Seq a b) # k) pos inp caps = run (Re a # Re b # k) pos inp caps"
| "run (Re (Alt a b) # k) pos inp caps =
     (case run (Re a # k) pos inp caps of Some r \<Rightarrow> Some r
      | None \<Rightarrow> run (Re b # k) pos inp caps)"
| "run (Re (Opt a) # k) pos inp caps =
     (case run (Re a # k) pos inp caps of Some r \<Rightarrow> Some r
      | None \<Rightarrow> run k pos inp caps)"
| "run (Re (Star c) # k) pos inp caps =
     (case inp of [] \<Rightarrow> run k pos inp caps
      | x # xs \<Rightarrow>
          if in_cls c x then
            (case run (Re (Star c) # k) (Suc pos) xs caps of Some r \<Rightarrow> Some r
             | None \<Rightarrow> run k pos inp caps)
          else run k pos inp caps)"
| "run (Re (Plus c) # k) pos inp caps = run (Re (Cls c) # Re (Star c) # k) pos inp caps"
| "run (Re (LazyStar c) # k) pos inp caps =
     (case run k pos inp caps of Some r \<Rightarrow> Some r
      | None \<Rightarrow>
          (case inp of [] \<Rightarrow> None
           | x # xs \<Rightarrow> if in_cls c x then run (Re (LazyStar c) # k) (Suc pos) xs caps else None))"
| "run (Re (LazyPlus c) # k) pos inp caps = run (Re (Cls c) # Re (LazyStar c) # k) pos inp caps"
| "run (Re (Grp n a) # k) pos inp caps = run (Re a # EndGrp n inp # k) pos inp caps"
| "run (Re Bol # k) pos inp caps = (if pos = 0 then run k pos inp caps else None)"
| "run (Re Eol # k) pos inp caps = (if inp = [] then run k pos inp caps else None)"
  by pat_completeness auto
termination
  by (relation "inv_image (less_than <*lex*> less_than)
        (\<lambda>(k, pos, inp, caps). (length inp, sum_list (map item_weight k)))")
     (auto simp: le_less)

fun searchFrom :: "regex \<Rightarrow> nat \<Rightarrow> string \<Rightarrow> (string \<times> caps) option" where
  "searchFrom r pos inp =
     (case run [Re r] pos inp [] of
        Some (rest, caps) \<Rightarrow> Some (take (length inp - length rest) inp, caps)
      | None \<Rightarrow> (case inp of [] \<Rightarrow> None | x # xs \<Rightarrow> searchFrom r (Suc pos) xs))"

definition re_match :: "string \<Rightarrow> regex \<Rightarrow> (string \<times> caps) option" where
  "re_match text r = searchFrom r 0 text"


section \<open>Extraction (createSmartFallback, processTextToEvent)\<close>

text \<open>
  The title: the pattern anchored at the start of the text, then the pattern of the event
  nouns, then the first three content words; each word is capitalised at the end
  (\<^verbatim>\<open>word.charAt(0).toUpperCase() + word.slice(1)\<close>, in code units).
  \<^verbatim>\<open>match[1].trim()\<close> raises a TypeError when group 1 took no part in the match.
\<close>

definition markerWords :: "regex list" where
  "markerWords = [LitI ''tomorrow'', LitI ''today'', LitI ''at'', LitI ''for'',
                  Seq (LitI ''hour'') (Opt (LitI ''s'')), Seq (LitI ''minute'') (Opt (LitI ''s'')),
                  LitI ''pm'', LitI ''am'', Plus Digit, seqs [Plus Digit, LitI '':'', Plus Digit]]"

definition doPattern :: regex where
  "doPattern = seqs [Bol,
     Opt (seqs [LitI ''i'', Plus Space]),
     Opt (seqs [LitI ''want'', Plus Space, LitI ''to'', Plus Space]),
     Opt (seqs [LitI ''need'', Plus Space, LitI ''to'', Plus Space]),
     Opt (seqs [LitI ''have'', Plus Space, LitI ''to'', Plus Space]),
     Opt (seqs [LitI ''should'', Plus Space]),
     Opt (seqs [LitI ''can'', Plus Space]),
     Opt (seqs [LitI ''will'', Plus Space]),
     Opt (seqs [LitI ''do'', Plus Space]),
     Grp 1 (LazyPlus AlphaSpace),
     Alt (Seq (Plus Space) (alts markerWords)) (Seq (Star Space) Eol)]"

definition eventNouns :: regex where
  "eventNouns = alts (map LitI [''meeting'', ''appointment'', ''session'', ''call'', ''conference'',
     ''interview'', ''lunch'', ''dinner'', ''breakfast'', ''workout'', ''gym'', ''class'', ''lesson'',
     ''training'', ''workshop'', ''seminar''])"

definition meetingPattern :: regex where
  "meetingPattern = seqs [Grp 1 (LazyPlus AlphaSpace), Plus Space, eventNouns]"

definition digitsOnly :: regex where
  "digitsOnly = seqs [Bol, Plus Digit, Eol]"

definition unitWord :: regex where
  "unitWord = seqs [Bol, Grp 1 (alts [LitI ''am'', LitI ''pm'', Seq (LitI ''hour'') (Opt (LitI ''s'')),
                                     Seq (LitI ''minute'') (Opt (LitI ''s''))]), Eol]"

definition stopWords :: "string list" where
  "stopWords = [''the'', ''and'', ''for'', ''with'', ''at'', ''in'', ''on'', ''to'', ''of'', ''a'', ''an'']"

definition keepWord :: "string \<Rightarrow> bool" where
  "keepWord word = (length word > 2 \<and> toLowerCase word \<notin> set stopWords \<and>
                    re_match word digitsOnly = None \<and> re_match word unitWord = None)"

definition capitalize :: "string \<Rightarrow> nat list" where
  "capitalize word = (case word of [] \<Rightarrow> [] | c # cs \<Rightarrow> toUpperCase_char c @ utf16 cs)"

definition pop_last :: "string list \<Rightarrow> string" where
  "pop_last ws = (case ws of [] \<Rightarrow> ''undefined'' | w # rest \<Rightarrow> last ws)"

definition extractTitle :: "string \<Rightarrow> exn + nat list" where
  "extractTitle text =
     (case (case re_match text doPattern of
              None \<Rightarrow> Inr ''Event''
            | Some (m0, groups) \<Rightarrow>
                (case map_of groups 1 of
                   None \<Rightarrow> Inl TypeError
                 | Some g \<Rightarrow> Inr (if length (trim g) > 0 then trim g else ''Event''))) of
        Inl e \<Rightarrow> Inl e
      | Inr title1 \<Rightarrow>
          (case (case re_match text meetingPattern of
                   None \<Rightarrow> Inr title1
                 | Some (m0, groups) \<Rightarrow>
                     (case map_of groups 1 of
                        None \<Rightarrow> Inl TypeError
                      | Some g \<Rightarrow>
                          Inr (if length (trim g) > 0
                               then trim g @ '' '' @ pop_last (split_on CHR '' '' m0)
                               else title1))) of
             Inl e \<Rightarrow> Inl e
           | Inr title2 \<Rightarrow>
               (let title3 =
                      (if title2 = ''Event'' then
                         (let words = filter keepWord (split_on CHR '' '' text)
                          in if length words > 0 then join_with '' '' (take 3 words) else title2)
                       else title2)
                in Inr (join_with (utf16 '' '') (map capitalize (split_on CHR '' '' title3))))))"

text \<open>The duration in hours: the first pattern that matches gives it; 1 when none does.\<close>

definition hourUnits :: regex where
  "hourUnits = alts [Seq (LitI ''hour'') (Opt (LitI ''s'')), Seq (LitI ''hr'') (Opt (LitI ''s'')), LitI ''hour'']"

definition durationPatterns :: "regex list" where
  "durationPatterns =
     [seqs [Grp 1 (Plus Digit), Star Space, hourUnits],
      seqs [LitI ''for'', Plus Space, Grp 1 (Plus Digit), Star Space, hourUnits],
      seqs [Grp 1 (Plus Digit), Star Space, Alt (LitI ''hour'') (LitI ''hr''), Plus Space,
            Alt (LitI ''long'') (LitI ''duration'')]]"

definition parseInt_of :: "string option \<Rightarrow> number" where
  "parseInt_of g = (case g of None \<Rightarrow> None | Some s \<Rightarrow> parseInt s)"

fun durationLoop :: "regex list \<Rightarrow> string \<Rightarrow> number \<Rightarrow> number" where
  "durationLoop [] text durationHours = durationHours"
| "durationLoop (pattern # rest) text durationHours =
     (case re_match text pattern of
        Some (m0, groups) \<Rightarrow> parseInt_of (map_of groups 1)
      | None \<Rightarrow> durationLoop rest text durationHours)"

text \<open>The location: the first pattern whose group 1, trimmed, is not empty.\<close>

definition placeWords :: regex where
  "placeWords = alts [LitI ''at'', LitI ''@'', LitI ''in'']"

definition locationPatterns :: "regex list" where
  "locationPatterns =
     [seqs [placeWords, Plus Space, Grp 1 (LazyPlus AlnumSpace),
            alts [Seq (Plus Space)
                    (alts [LitI ''tomorrow'', LitI ''today'', Seq (LitI ''hour'') (Opt (LitI ''s'')),
                           Seq (LitI ''minute'') (Opt (LitI ''s'')), LitI ''pm'', LitI ''am'', Plus Digit]),
                  Cls Space, Eol]],
      seqs [eventNouns, Plus Space, placeWords, Plus Space, Grp 1 (LazyPlus AlnumSpace),
            Alt (Cls Space) Eol],
      seqs [alts [seqs [LitI ''go'', Plus Space, LitI ''to''], LitI ''visit'', LitI ''see''],
            Plus Space, Grp 1 (LazyPlus AlnumSpace), Alt (Cls Space) Eol]]"

fun locationLoop :: "regex list \<Rightarrow> string \<Rightarrow> string \<Rightarrow> exn + string" where
  "locationLoop [] text location = Inr location"
| "locationLoop (pattern # rest) text location =
     (case re_match text pattern of
        None \<Rightarrow> locationLoop rest text location
      | Some (m0, groups) \<Rightarrow>
          (case map_of groups 1 of
             None \<Rightarrow> Inl TypeError
           | Some g \<Rightarrow> if length (trim g) > 0 then Inr (trim g) else locationLoop rest text location))"

text \<open>
  The time of day: the first pattern that matches and passes the validation of hours and
  minutes sets it; a match that fails the validation moves on to the next pattern.
\<close>

definition oneOrTwoDigits :: regex where
  "oneOrTwoDigits = Seq (Cls Digit) (Opt (Cls Digit))"

definition amOrPm :: regex where
  "amOrPm = Alt (LitI ''am'') (LitI ''pm'')"

definition timePatterns :: "regex list" where
  "timePatterns =
     [seqs [Grp 1 oneOrTwoDigits, Lit '':'', Grp 2 (Seq (Cls Digit) (Cls Digit)), Star Space,
            Opt (Grp 3 amOrPm)],
      seqs [Grp 1 oneOrTwoDigits, Star Space, Grp 2 amOrPm],
      seqs [LitI ''at'', Plus Space, Grp 1 oneOrTwoDigits, Opt (Lit '':''),
            Opt (Grp 2 (Seq (Cls Digit) (Cls Digit))), Star Space, Opt (Grp 3 amOrPm)],
      seqs [Grp 1 oneOrTwoDigits, Star Space,
            Alt (LitI (''o'' @ [CHR 0x27] @ ''clock'')) (LitI ''oclock'')]]"

fun timeLoop :: "tzone \<Rightarrow> regex list \<Rightarrow> string \<Rightarrow> jsdate \<Rightarrow> jsdate" where
  "timeLoop tz [] text eventTime = eventTime"
| "timeLoop tz (pattern # rest) text eventTime =
     (case re_match text pattern of
        None \<Rightarrow> timeLoop tz rest text eventTime
      | Some (m0, groups) \<Rightarrow>
          (let hours = parseInt_of (map_of groups 1);
               minutes = (case map_of groups 2 of
                            None \<Rightarrow> Some 0
                          | Some g \<Rightarrow> if g = [] then Some 0 else parseInt g);
               ampm = map_option toLowerCase (map_of groups 3)
           in case hours of
                None \<Rightarrow> timeLoop tz rest text eventTime
              | Some h \<Rightarrow>
                  if h < 0 \<or> h > 23 then timeLoop tz rest text eventTime
                  else
                    (case minutes of
                       None \<Rightarrow> timeLoop tz rest text eventTime
                     | Some mi \<Rightarrow>
                         if mi < 0 \<or> mi > 59 then timeLoop tz rest text eventTime
                         else
                           (let h1 = (if ampm = Some ''pm'' \<and> h \<noteq> 12 then h + 12 else h);
                                h2 = (if ampm = Some ''am'' \<and> h1 = 12 then 0 else h1)
                            in if h2 < 0 \<or> h2 > 23 then timeLoop tz rest text eventTime
                               else setHours tz eventTime h2 mi 0 0))))"

text \<open>
  The extracted event; \<open>startISO\<close> and \<open>endISO\<close> are the instants of the ISO strings in the
  fields \<^verbatim>\<open>start\<close> and \<^verbatim>\<open>end\<close>. The title is a list of UTF-16 code units, since
  capitalising can leave the code units below 256; \<open>utf16 s\<close> is the list for a string \<open>s\<close>.
\<close>

record extracted_event =
  title :: "nat list"
  startISO :: int
  endISO :: int
  location :: string
  description :: string

definition eventDateOf :: "jsdate \<Rightarrow> jsdate \<Rightarrow> string \<Rightarrow> jsdate" where
  "eventDateOf now tomorrow text =
     (let textLower = toLowerCase text
      in if str_includes textLower ''today'' then now
         else if str_includes textLower ''tomorrow'' then tomorrow
         else if str_includes textLower ''next week''
           then newDate (num_add (getTime now) (Some (7 * 24 * 60 * 60 * 1000)))
         else if str_includes textLower ''this week'' then now
         else tomorrow)"

text \<open>
  createSmartFallback: the body of its \<^verbatim>\<open>try\<close> block, then the function with its
  \<^verbatim>\<open>catch\<close> block. \<open>tz\<close> is the time zone of the process and \<open>clock\<close> the reading of
  the clock (\<^verbatim>\<open>new Date()\<close>), taken to be the same at every read of one call.
  \<open>resolveEventTime\<close> is the part from \<^verbatim>\<open>let eventDate = tomorrow\<close> to the validation of
  the final event time, \<open>buildResult\<close> the part from \<^verbatim>\<open>const endTime\<close> to the
  \<^verbatim>\<open>return\<close>.
\<close>

definition resolveEventTime :: "tzone \<Rightarrow> int \<Rightarrow> string \<Rightarrow> jsdate \<Rightarrow> jsdate \<Rightarrow> jsdate" where
  "resolveEventTime tz clock text now tomorrow =
     (let eventDate = eventDateOf now tomorrow text;
          copied = newDate (getTime eventDate);
          based = (if isNaN (getTime copied) then TimeClip clock else copied);
          defaulted = setHours tz based 14 0 0 0;
          timed = timeLoop tz timePatterns text defaulted
      in if isNaN (getTime timed) then
           (let fresh = TimeClip clock
            in case getHours tz fresh of
                 None \<Rightarrow> None
               | Some h \<Rightarrow> setHours tz fresh (h + 1) 0 0 0)
         else timed)"

definition buildResult :: "jsdate \<Rightarrow> number \<Rightarrow> nat list \<Rightarrow> string \<Rightarrow> string \<Rightarrow> exn + extracted_event" where
  "buildResult eventTime durationHours capitalized place text =
     (let computedEnd = newDate (num_add (getTime eventTime) (num_mul durationHours (Some (60 * 60 * 1000))));
          endTime = (if isNaN (getTime computedEnd)
                     then newDate (num_add (getTime eventTime) (Some (60 * 60 * 1000)))
                     else computedEnd)
      in case toISOString eventTime of
           Inl e \<Rightarrow> Inl e
         | Inr s \<Rightarrow>
             (case toISOString endTime of
                Inl e \<Rightarrow> Inl e
              | Inr f \<Rightarrow> Inr \<lparr>title = capitalized, startISO = s, endISO = f,
                               location = place, description = text\<rparr>))"

definition createSmartFallback_try :: "tzone \<Rightarrow> int \<Rightarrow> string \<Rightarrow> exn + extracted_event" where
  "createSmartFallback_try tz clock text =
     (let now = TimeClip clock;
          tomorrow = newDate (num_add (getTime now) (Some (24 * 60 * 60 * 1000)))
      in if isNaN (getTime now) \<or> isNaN (getTime tomorrow) then
           (let fallbackNow = TimeClip clock;
                fallbackTomorrow = newDate (num_add (getTime fallbackNow) (Some (24 * 60 * 60 * 1000)))
            in case toISOString fallbackNow of
                 Inl e \<Rightarrow> Inl e
               | Inr s \<Rightarrow>
                   (case toISOString fallbackTomorrow of
                      Inl e \<Rightarrow> Inl e
                    | Inr f \<Rightarrow> Inr \<lparr>title = utf16 ''Event'', startISO = s, endISO = f,
                                     location = ''TBD'', description = text\<rparr>))
         else
           (case extractTitle text of
              Inl e \<Rightarrow> Inl e
            | Inr capitalized \<Rightarrow>
                (let durationHours = durationLoop durationPatterns text (Some 1)
                 in case locationLoop locationPatterns text ''TBD'' of
                      Inl e \<Rightarrow> Inl e
                    | Inr place \<Rightarrow>
                        buildResult (resolveEventTime tz clock text now tomorrow) durationHours
                          capitalized place text)))"

definition createSmartFallback :: "tzone \<Rightarrow> int \<Rightarrow> string \<Rightarrow> string option \<Rightarrow> exn + extracted_event" where
  "createSmartFallback tz clock text userTimezone =
     (case createSmartFallback_try tz clock text of
        Inr result \<Rightarrow> Inr result
      | Inl error \<Rightarrow>
          (let safeDate = TimeClip clock;
               safeEndDate = newDate (num_add (getTime safeDate) (Some (60 * 60 * 1000)))
           in case toISOString safeDate of
                Inl e \<Rightarrow> Inl e
              | Inr s \<Rightarrow>
                  (case toISOString safeEndDate of
                     Inl e \<Rightarrow> Inl e
                   | Inr f \<Rightarrow> Inr \<lparr>title = utf16 ''Event'', startISO = s, endISO = f,
                                    location = ''TBD'', description = text\<rparr>)))"



text \<open>
  processTextToEvent. The two external services are given by what their call does: a client
  that is not configured is \<open>None\<close>; a configured one throws or returns the text of the
  completion (for the first service \<^verbatim>\<open>response.choices[0]?.message?.content\<close>, which may
  be absent). \<^verbatim>\<open>JSON.parse\<close> is a parameter: it gives the fields of the object it reads, or
  \<open>None\<close> when it raises. \<open>validTimeZone\<close> tells the zone names
  \<^verbatim>\<open>toLocaleString\<close> accepts; it raises a RangeError on any other.
\<close>

datatype json = JNull | JBool bool | JNum int | JStr string | JArr "json list" | JObj "(string \<times> json) list"

fun truthy :: "json option \<Rightarrow> bool" where
  "truthy None = False"
| "truthy (Some JNull) = False"
| "truthy (Some (JBool b)) = b"
| "truthy (Some (JNum n)) = (n \<noteq> 0)"
| "truthy (Some (JStr s)) = (s \<noteq> [])"
| "truthy (Some (JArr xs)) = True"
| "truthy (Some (JObj fs)) = True"

record services =
  openai :: "string option call option"
  ollama :: "string call option"

datatype processed = Undefined | EventData "(string \<times> json) list" | Extracted extracted_event

definition jsonPattern :: regex where
  "jsonPattern = seqs [Lit ''{'', Star AnyChar, Lit ''}'']"

definition outputPattern :: regex where
  "outputPattern = seqs [Lit ''Output:'', Star Space, Grp 1 (seqs [Lit ''{'', Star AnyChar, Lit ''}''])]"

definition hasRequiredFields :: "(string \<times> json) list \<Rightarrow> bool" where
  "hasRequiredFields eventData =
     (truthy (map_of eventData ''title'') \<and> truthy (map_of eventData ''start'') \<and>
      truthy (map_of eventData ''end''))"

text \<open>
  The \<^verbatim>\<open>try\<close> block: \<open>Inl\<close> is an exception thrown inside it, \<open>Inr\<close> what the function
  returns from inside it, \<open>Inr Undefined\<close> when control leaves the block with no
  \<^verbatim>\<open>return\<close>.
\<close>

definition processTextToEvent_try ::
  "services \<Rightarrow> (string \<Rightarrow> (string \<times> json) list option) \<Rightarrow> tzone \<Rightarrow> int \<Rightarrow> string \<Rightarrow>
   string option \<Rightarrow> exn + processed" where
  "processTextToEvent_try svc JSON_parse tz clock text userTimezone =
     (case openai svc of
        Some completion \<Rightarrow>
          (case completion of
             Throws \<Rightarrow> Inl Error
           | Returns content \<Rightarrow>
               (let responseText = (case content of None \<Rightarrow> [] | Some c \<Rightarrow> trim c)
                in case re_match responseText jsonPattern of
                     None \<Rightarrow> Inr Undefined
                   | Some (m0, groups) \<Rightarrow>
                       (case JSON_parse m0 of
                          None \<Rightarrow> Inr Undefined
                        | Some eventData \<Rightarrow>
                            if hasRequiredFields eventData then Inr (EventData eventData)
                            else Inr Undefined)))
      | None \<Rightarrow>
          (case ollama svc of
             Some generation \<Rightarrow>
               (case generation of
                  Throws \<Rightarrow> Inl Error
                | Returns response \<Rightarrow>
                    (let responseText = trim response;
                         jsonMatch =
                           (case re_match responseText jsonPattern of
                              Some (m0, groups) \<Rightarrow> Some m0
                            | None \<Rightarrow>
                                (case re_match responseText outputPattern of
                                   Some (m0, groups) \<Rightarrow> map_of groups 1
                                 | None \<Rightarrow> None))
                     in case jsonMatch of
                          None \<Rightarrow> Inl Error
                        | Some found \<Rightarrow>
                            (case JSON_parse found of
                               None \<Rightarrow> Inl Error
                             | Some eventData \<Rightarrow>
                                 if \<not> hasRequiredFields eventData then Inl Error
                                 else Inr (EventData eventData))))
           | None \<Rightarrow>
               (case createSmartFallback tz clock text userTimezone of
                  Inl e \<Rightarrow> Inl e
                | Inr event \<Rightarrow> Inr (Extracted event))))"

definition processTextToEvent ::
  "(string \<Rightarrow> bool) \<Rightarrow> services \<Rightarrow> (string \<Rightarrow> (string \<times> json) list option) \<Rightarrow> tzone \<Rightarrow> int \<Rightarrow>
   string \<Rightarrow> string option \<Rightarrow> exn + processed" where
  "processTextToEvent validTimeZone svc JSON_parse tz clock text userTimezone =
     (let timezone = (case userTimezone of None \<Rightarrow> ''UTC'' | Some z \<Rightarrow> if z = [] then ''UTC'' else z)
      in if \<not> validTimeZone timezone then Inl RangeError
         else
           (case processTextToEvent_try svc JSON_parse tz clock text userTimezone of
              Inr result \<Rightarrow> Inr result
            | Inl error \<Rightarrow>
                (case createSmartFallback tz clock text userTimezone of
                   Inl e \<Rightarrow> Inl e
                 | Inr event \<Rightarrow> Inr (Extracted event))))"

text \<open>Proof vocabulary: the groups a regex closes on every match, and those it mentions.\<close>

fun closed_groups :: "regex \<Rightarrow> nat set" where
  "closed_groups (Grp n a) = insert n (closed_groups a)"
| "closed_groups (Seq a b) = closed_groups a \<union> closed_groups b"
| "closed_groups r = {}"

fun item_closed :: "item \<Rightarrow> nat set" where
  "item_closed (Re r) = closed_groups r"
| "item_closed (EndGrp n s) = {n}"

fun mentioned_groups :: "regex \<Rightarrow> nat set" where
  "mentioned_groups (Grp n a) = insert n (mentioned_groups a)"
| "mentioned_groups (Seq a b) = mentioned_groups a \<union> mentioned_groups b"
| "mentioned_groups (Alt a b) = mentioned_groups a \<union> mentioned_groups b"
| "mentioned_groups (Opt a) = mentioned_groups a"
| "mentioned_groups r = {}"

fun item_mentioned :: "item \<Rightarrow> nat set" where
  "item_mentioned (Re r) = mentioned_groups r"
| "item_mentioned (EndGrp n s) = {n}"


text \<open>What a group \<^verbatim>\<open>(\d+)\<close> captures: a non-empty string of digits.\<close>

definition digit_string :: "string \<Rightarrow> bool" where
  "digit_string ds = (ds \<noteq> [] \<and> (\<forall>c \<in> set ds. isDigit c))"


section \<open>Properties of the availability check\<close>


declare scanHours.simps [simp del]


















text \<open>
  The same in UTC: with the all-day conference on 8 and 9 September every candidate
  conflicts, and the one suggestion is 09:00 UTC on 9 September.
\<close>

lemma generateSuggestedTimes_fallback_example:
  "generateSuggestedTimes (fixedZone 0) (DateTime 1757354400000) (DateTime 1757361600000)
     [\<lparr>summary = ''Conference'',
        ev_start = Some \<lparr>dateTime = None, date = Some (DateOnly 20339)\<rparr>,
        ev_end = Some \<lparr>dateTime = None, date = Some (DateOnly 20341)\<rparr>\<rparr>]
     = Inr [1757408400000]"
  by code_simp

text \<open>
  C6: when the read of the existing events throws, checkAvailability fails open: the
  result is available, with no conflicts and no suggestions, and nothing is propagated
  (the function has no error result).
\<close>

theorem checkAvailability_fails_open:
  "checkAvailability tz Throws startTime endTime =
     \<lparr>isAvailable = True, conflicts = [], suggestedTimes = None\<rparr>"
  by (simp add: checkAvailability_def checkAvailability_with_def)

text \<open>
  C7: the overlap test is \<open>a.start < b.end \<and> a.end > b.start\<close>; for instants
  \<open>x < y < z\<close> the intervals from \<open>x\<close> to \<open>y\<close> and from \<open>y\<close> to \<open>z\<close> do not
  overlap; and the test is symmetric.
\<close>

theorem overlaps_half_open:
  "overlaps a b = (num_lt (fst a) (snd b) \<and> num_gt (snd a) (fst b)) \<and>
   (x < y \<and> y < z \<longrightarrow> \<not> overlaps (Some x, Some y) (Some y, Some z)) \<and>
   overlaps a b = overlaps b a"
  by (auto simp: overlaps_def num_lt_def num_gt_def split: option.splits)

theorem overlaps_half_open_witness:
  "(9::int) < 10 \<and> (10::int) < 11 \<and> \<not> overlaps (Some 9, Some 10) (Some 10, Some 11) \<and>
   overlaps (Some 9, Some 11) (Some 10, Some 12) \<and> overlaps (Some 10, Some 12) (Some 9, Some 11)"
  using overlaps_half_open [of "(Some 9, Some 11)" "(Some 10, Some 12)" 9 10 11]
  by (auto simp: num_lt_def num_gt_def)

text \<open>
  C8: in every result of checkAvailability, isAvailable holds exactly when the list of
  conflicts is empty. When no listed event overlaps the candidate (also when the list is
  empty or absent), the result is available with no conflicts and no suggestions, whatever
  the suggestion search would compute: it is not consulted.
\<close>

theorem checkAvailability_available_iff:
  "isAvailable (checkAvailability tz listing startTime endTime) =
     (conflicts (checkAvailability tz listing startTime endTime) = []) \<and>
   ((\<forall>event \<in> set (case items of None \<Rightarrow> [] | Some xs \<Rightarrow> xs).
       \<not> overlaps (eventStart tz event, eventEnd tz event) (Date_parse tz startTime, Date_parse tz endTime)) \<longrightarrow>
    checkAvailability_with suggest tz (Returns items) startTime endTime =
      \<lparr>isAvailable = True, conflicts = [], suggestedTimes = None\<rparr>)"
proof (intro conjI impI)
  show "isAvailable (checkAvailability tz listing startTime endTime) =
     (conflicts (checkAvailability tz listing startTime endTime) = [])"
    by (simp add: checkAvailability_def checkAvailability_with_def Let_def
          split: call.splits sum.splits)
next
  assume "\<forall>event \<in> set (case items of None \<Rightarrow> [] | Some xs \<Rightarrow> xs).
       \<not> overlaps (eventStart tz event, eventEnd tz event) (Date_parse tz startTime, Date_parse tz endTime)"
  then have "filter (\<lambda>event. overlaps (eventStart tz event, eventEnd tz event)
                 (Date_parse tz startTime, Date_parse tz endTime))
               (case items of None \<Rightarrow> [] | Some xs \<Rightarrow> xs) = []"
    by (simp add: filter_empty_conv)
  then show "checkAvailability_with suggest tz (Returns items) startTime endTime =
      \<lparr>isAvailable = True, conflicts = [], suggestedTimes = None\<rparr>"
    by (simp add: checkAvailability_with_def Let_def)
qed

theorem checkAvailability_available_iff_witness:
  "\<not> overlaps
      (eventStart (fixedZone 0) \<lparr>summary = ''Standup'',
         ev_start = Some \<lparr>dateTime = Some (DateTime 1757322000000), date = None\<rparr>,
         ev_end = Some \<lparr>dateTime = Some (DateTime 1757332800000), date = None\<rparr>\<rparr>,
       eventEnd (fixedZone 0) \<lparr>summary = ''Standup'',
         ev_start = Some \<lparr>dateTime = Some (DateTime 1757322000000), date = None\<rparr>,
         ev_end = Some \<lparr>dateTime = Some (DateTime 1757332800000), date = None\<rparr>\<rparr>)
      (Date_parse (fixedZone 0) (DateTime 1757354400000), Date_parse (fixedZone 0) (DateTime 1757361600000)) \<and>
   checkAvailability_with (\<lambda>tz s e evs. Inr [0]) (fixedZone 0)
     (Returns (Some [\<lparr>summary = ''Standup'',
        ev_start = Some \<lparr>dateTime = Some (DateTime 1757322000000), date = None\<rparr>,
        ev_end = Some \<lparr>dateTime = Some (DateTime 1757332800000), date = None\<rparr>\<rparr>]))
     (DateTime 1757354400000) (DateTime 1757361600000) =
      \<lparr>isAvailable = True, conflicts = [], suggestedTimes = None\<rparr>"
proof -
  let ?ev = "\<lparr>summary = ''Standup'',
         ev_start = Some \<lparr>dateTime = Some (DateTime 1757322000000), date = None\<rparr>,
         ev_end = Some \<lparr>dateTime = Some (DateTime 1757332800000), date = None\<rparr>\<rparr>"
  have h: "\<not> overlaps (eventStart (fixedZone 0) ?ev, eventEnd (fixedZone 0) ?ev)
      (Date_parse (fixedZone 0) (DateTime 1757354400000), Date_parse (fixedZone 0) (DateTime 1757361600000))"
    by code_simp
  from h checkAvailability_available_iff [of "fixedZone 0" Throws "DateTime 1757354400000"
      "DateTime 1757361600000" "Some [?ev]" "\<lambda>tz s e evs. Inr [0]"]
  show ?thesis by simp
qed

text \<open>
  C3 as stated fails: in a zone four hours behind UTC, the all-day event of 8 September
  2025 does not start at local midnight of that day and end at the next local midnight.
\<close>

theorem allDay_local_midnight_counterexample:
  "\<not> (eventStart (fixedZone (- 14400000))
         \<lparr>summary = ''Conference'',
          ev_start = Some \<lparr>dateTime = None, date = Some (DateOnly 20339)\<rparr>,
          ev_end = Some \<lparr>dateTime = None, date = Some (DateOnly 20340)\<rparr>\<rparr>
        = Some (spec_localMidnight (fixedZone (- 14400000)) 20339) \<and>
       eventEnd (fixedZone (- 14400000))
         \<lparr>summary = ''Conference'',
          ev_start = Some \<lparr>dateTime = None, date = Some (DateOnly 20339)\<rparr>,
          ev_end = Some \<lparr>dateTime = None, date = Some (DateOnly 20340)\<rparr>\<rparr>
        = Some (spec_localMidnight (fixedZone (- 14400000)) 20340))"
  by code_simp

text \<open>
  In that zone a request from 21:00 to 22:00 local time on 8 September is reported
  available, although it lies within the local day of the all-day event.
\<close>

lemma allDay_evening_example:
  "isAvailable (checkAvailability (fixedZone (- 14400000))
      (Returns (Some [\<lparr>summary = ''Conference'',
          ev_start = Some \<lparr>dateTime = None, date = Some (DateOnly 20339)\<rparr>,
          ev_end = Some \<lparr>dateTime = None, date = Some (DateOnly 20340)\<rparr>\<rparr>]))
      (DateTime 1757379600000) (DateTime 1757383200000)) \<and>
   overlaps (Some (spec_localMidnight (fixedZone (- 14400000)) 20339),
             Some (spec_localMidnight (fixedZone (- 14400000)) 20340))
            (Some 1757379600000, Some 1757383200000)"
  by code_simp

text \<open>
  C3, amended: before the overlap comparison, an all-day event (start and end given by date
  only) is read as the interval from UTC midnight of its start date to UTC midnight of its
  end date, whatever the time zone.
\<close>

theorem allDay_utc_midnight:
  "eventStart tz \<lparr>summary = s,
                  ev_start = Some \<lparr>dateTime = None, date = Some (DateOnly startDay)\<rparr>,
                  ev_end = Some \<lparr>dateTime = None, date = Some (DateOnly endDay)\<rparr>\<rparr>
     = TimeClip (startDay * 86400000) \<and>
   eventEnd tz \<lparr>summary = s,
                ev_start = Some \<lparr>dateTime = None, date = Some (DateOnly startDay)\<rparr>,
                ev_end = Some \<lparr>dateTime = None, date = Some (DateOnly endDay)\<rparr>\<rparr>
     = TimeClip (endDay * 86400000)"
  by (simp add: eventStart_def eventEnd_def event_instant_def Date_parse_def MakeDate_def msPerDay_def)



section \<open>Properties of the matcher\<close>

text \<open>
  A group that lies on every path through a regex is captured by every match; a group a
  regex does not mention keeps what it held; a group \<^verbatim>\<open>(\d+)\<close> captures digits.
\<close>

lemma run_closes:
  "run k pos inp caps = Some (rest, caps') \<Longrightarrow>
     (\<Union>i \<in> set k. item_closed i) \<union> fst ` set caps \<subseteq> fst ` set caps'"
proof (induction k pos inp caps rule: run.induct)
  case (1 pos inp caps)
  then show ?case by simp
next
  case (2 n opened k pos inp caps)
  then show ?case by auto
next
  case (3 s k pos inp caps)
  then show ?case by (auto split: if_splits)
next
  case (4 s k pos inp caps)
  then show ?case by (auto split: if_splits)
next
  case (5 c k pos inp caps)
  then show ?case by (auto split: if_splits list.splits)
next
  case (6 a b k pos inp caps)
  then show ?case by auto
next
  case (7 a b k pos inp caps)
  then show ?case by (cases "run (Re a # k) pos inp caps") auto
next
  case (8 a k pos inp caps)
  then show ?case by (cases "run (Re a # k) pos inp caps") auto
next
  case (9 c k pos inp caps)
  show ?case
  proof (cases inp)
    case Nil
    with 9 show ?thesis by auto
  next
    case (Cons x xs)
    with 9 show ?thesis
      by (cases "in_cls c x"; cases "run (Re (Star c) # k) (Suc pos) xs caps") auto
  qed
next
  case (10 c k pos inp caps)
  then show ?case by auto
next
  case (11 c k pos inp caps)
  show ?case
  proof (cases "run k pos inp caps")
    case (Some r)
    with 11 show ?thesis by auto
  next
    case None
    with 11 show ?thesis by (cases inp) (auto split: if_splits)
  qed
next
  case (12 c k pos inp caps)
  then show ?case by auto
next
  case (13 n a k pos inp caps)
  then show ?case by auto
next
  case (14 k pos inp caps)
  then show ?case by (auto split: if_splits)
next
  case (15 k pos inp caps)
  then show ?case by (auto split: if_splits)
qed


declare run.simps [simp del]

lemma run_keeps:
  "run k pos inp caps = Some (rest, caps') \<Longrightarrow> n \<notin> (\<Union>i \<in> set k. item_mentioned i) \<Longrightarrow>
     map_of caps' n = map_of caps n"
proof (induction k pos inp caps rule: run.induct)
  case (1 pos inp caps)
  then show ?case by (simp add: run.simps)
next
  case (2 m opened k pos inp caps)
  then show ?case by (auto simp: run.simps)
next
  case (3 s k pos inp caps)
  then show ?case by (auto simp: run.simps split: if_splits)
next
  case (4 s k pos inp caps)
  then show ?case by (auto simp: run.simps split: if_splits)
next
  case (5 c k pos inp caps)
  then show ?case by (auto simp: run.simps split: if_splits list.splits)
next
  case (6 a b k pos inp caps)
  then show ?case by (auto simp: run.simps)
next
  case (7 a b k pos inp caps)
  then show ?case by (cases "run (Re a # k) pos inp caps") (auto simp: run.simps)
next
  case (8 a k pos inp caps)
  then show ?case by (cases "run (Re a # k) pos inp caps") (auto simp: run.simps)
next
  case (9 c k pos inp caps)
  show ?case
  proof (cases inp)
    case Nil
    with 9 show ?thesis by (auto simp: run.simps)
  next
    case (Cons x xs)
    with 9 show ?thesis
      by (cases "in_cls c x"; cases "run (Re (Star c) # k) (Suc pos) xs caps") (auto simp: run.simps)
  qed
next
  case (10 c k pos inp caps)
  then show ?case by (auto simp: run.simps)
next
  case (11 c k pos inp caps)
  show ?case
  proof (cases "run k pos inp caps")
    case (Some r)
    with 11 show ?thesis by (auto simp: run.simps)
  next
    case None
    with 11 show ?thesis by (cases inp) (auto simp: run.simps split: if_splits)
  qed
next
  case (12 c k pos inp caps)
  then show ?case by (auto simp: run.simps)
next
  case (13 m a k pos inp caps)
  then show ?case by (auto simp: run.simps)
next
  case (14 k pos inp caps)
  then show ?case by (auto simp: run.simps split: if_splits)
next
  case (15 k pos inp caps)
  then show ?case by (auto simp: run.simps split: if_splits)
qed

lemma run_star:
  "run (Re (Star c) # k) pos inp caps = Some res \<Longrightarrow>
     \<exists>m \<le> length inp. (\<forall>x \<in> set (take m inp). in_cls c x) \<and>
        run k (pos + m) (drop m inp) caps = Some res"
proof (induction inp arbitrary: pos)
  case Nil
  then show ?case by (simp add: run.simps)
next
  case (Cons x xs)
  show ?case
  proof (cases "in_cls c x \<and> run (Re (Star c) # k) (Suc pos) xs caps \<noteq> None")
    case True
    with Cons.prems have "run (Re (Star c) # k) (Suc pos) xs caps = Some res"
      by (auto simp: run.simps split: option.splits)
    from Cons.IH [OF this] obtain m where m: "m \<le> length xs" "\<forall>x \<in> set (take m xs). in_cls c x"
      "run k (Suc pos + m) (drop m xs) caps = Some res" by blast
    with True show ?thesis
      by (intro exI [of _ "Suc m"]) auto
  next
    case False
    with Cons.prems have "run k pos (x # xs) caps = Some res"
      by (auto simp: run.simps split: option.splits if_splits)
    then show ?thesis by (intro exI [of _ 0]) auto
  qed
qed

lemma run_digits_group:
  assumes "run (Re (Grp n (Plus Digit)) # k) pos inp caps = Some res"
  shows "\<exists>ds pos' inp'. digit_string ds \<and> run k pos' inp' ((n, ds) # caps) = Some res"
proof -
  from assms have r: "run (Re (Cls Digit) # Re (Star Digit) # EndGrp n inp # k) pos inp caps = Some res"
    by (simp add: run.simps)
  then obtain x xs where inp: "inp = x # xs" and x: "isDigit x"
    and s: "run (Re (Star Digit) # EndGrp n inp # k) (Suc pos) xs caps = Some res"
    by (cases inp) (auto simp: run.simps split: if_splits)
  from run_star [OF s] obtain m where m: "m \<le> length xs" "\<forall>y \<in> set (take m xs). in_cls Digit y"
    "run (EndGrp n inp # k) (Suc pos + m) (drop m xs) caps = Some res" by blast
  from m(1) have "length inp - length (drop m xs) = Suc m" by (simp add: inp)
  with m(3) have "run k (Suc pos + m) (drop m xs) ((n, take (Suc m) inp) # caps) = Some res"
    by (simp add: run.simps)
  moreover have "digit_string (take (Suc m) inp)"
    using x m(2) by (auto simp: digit_string_def inp)
  ultimately show ?thesis by blast
qed

lemma searchFrom_run:
  "searchFrom r pos inp = Some (m0, caps) \<Longrightarrow>
     \<exists>pos' inp' rest. run [Re r] pos' inp' [] = Some (rest, caps)"
proof (induction inp arbitrary: pos)
  case Nil
  then show ?case by (auto split: option.splits)
next
  case (Cons x xs)
  show ?case
  proof (cases "run [Re r] pos (x # xs) []")
    case None
    with Cons.prems have "searchFrom r (Suc pos) xs = Some (m0, caps)" by simp
    from Cons.IH [OF this] show ?thesis .
  next
    case (Some res)
    with Cons.prems show ?thesis by (cases res) auto
  qed
qed

lemma re_match_closes:
  assumes "re_match text r = Some (m0, caps)" and "n \<in> closed_groups r"
  shows "\<exists>g. map_of caps n = Some g"
proof -
  from assms(1) obtain pos inp rest where "run [Re r] pos inp [] = Some (rest, caps)"
    unfolding re_match_def by (blast dest: searchFrom_run)
  from run_closes [OF this] assms(2) have "n \<in> fst ` set caps" by auto
  then show ?thesis by (metis domD dom_map_of_conv_image_fst)
qed


lemma run_digits_captured:
  assumes "run (Re (Grp n (Plus Digit)) # k) pos inp caps = Some (rest, caps')"
    and "n \<notin> (\<Union>i \<in> set k. item_mentioned i)"
  shows "\<exists>ds. digit_string ds \<and> map_of caps' n = Some ds"
proof -
  from run_digits_group [OF assms(1)] obtain ds pos' inp' where
    ds: "digit_string ds" and r: "run k pos' inp' ((n, ds) # caps) = Some (rest, caps')" by blast
  from run_keeps [OF r assms(2)] have "map_of caps' n = Some ds" by simp
  with ds show ?thesis by blast
qed

lemma durationPattern_captures:
  assumes "pattern \<in> set durationPatterns" and "run [Re pattern] pos inp [] = Some (rest, caps)"
  shows "\<exists>ds. digit_string ds \<and> map_of caps 1 = Some ds"
proof -
  let ?tail1 = "Seq (Star Space) hourUnits"
  let ?tail3 = "Seq (Star Space) (Seq (Alt (LitI ''hour'') (LitI ''hr''))
                  (Seq (Plus Space) (Alt (LitI ''long'') (LitI ''duration''))))"
  have m1: "1 \<notin> mentioned_groups ?tail1" by (simp add: hourUnits_def)
  have m3: "1 \<notin> mentioned_groups ?tail3" by simp
  from assms(1) consider
      (p1) "pattern = Seq (Grp 1 (Plus Digit)) ?tail1"
    | (p2) "pattern = Seq (LitI ''for'') (Seq (Plus Space) (Seq (Grp 1 (Plus Digit)) ?tail1))"
    | (p3) "pattern = Seq (Grp 1 (Plus Digit)) ?tail3"
    by (auto simp: durationPatterns_def)
  then show ?thesis
  proof cases
    case p1
    with assms(2) have "run [Re (Grp 1 (Plus Digit)), Re ?tail1] pos inp [] = Some (rest, caps)"
      by (simp add: run.simps)
    from run_digits_captured [OF this] m1 show ?thesis by simp
  next
    case p3
    with assms(2) have "run [Re (Grp 1 (Plus Digit)), Re ?tail3] pos inp [] = Some (rest, caps)"
      by (simp add: run.simps)
    from run_digits_captured [OF this] m3 show ?thesis by simp
  next
    case p2
    let ?k = "[Re (Seq (Grp 1 (Plus Digit)) ?tail1)]"
    from p2 assms(2) have "run [Re (LitI ''for''), Re (Seq (Plus Space) (Seq (Grp 1 (Plus Digit)) ?tail1))]
        pos inp [] = Some (rest, caps)"
      by (simp add: run.simps)
    then obtain pos0 inp0 where
      "run [Re (Seq (Plus Space) (Seq (Grp 1 (Plus Digit)) ?tail1))] pos0 inp0 [] = Some (rest, caps)"
      by (auto simp: run.simps(4) split: if_splits)
    then have "run (Re (Cls Space) # Re (Star Space) # ?k) pos0 inp0 [] = Some (rest, caps)"
      by (simp add: run.simps)
    then obtain pos1 inp1 where "run (Re (Star Space) # ?k) pos1 inp1 [] = Some (rest, caps)"
      by (cases inp0) (auto simp: run.simps(5) split: if_splits)
    from run_star [OF this] obtain pos2 inp2 where "run ?k pos2 inp2 [] = Some (rest, caps)"
      by blast
    then have "run [Re (Grp 1 (Plus Digit)), Re ?tail1] pos2 inp2 [] = Some (rest, caps)"
      by (simp add: run.simps)
    from run_digits_captured [OF this] m1 show ?thesis by simp
  qed
qed

lemma digitOf_nonneg: "0 \<le> digitOf c"
  by (simp add: digitOf_def)

lemma digitsValue_nonneg: "0 \<le> radix \<Longrightarrow> 0 \<le> acc \<Longrightarrow> 0 \<le> digitsValue radix acc ds"
proof (induction ds arbitrary: acc)
  case Nil
  then show ?case by simp
next
  case (Cons c ds)
  from Cons.prems have "0 \<le> radix * acc" by simp
  with digitOf_nonneg [of c] have "0 \<le> radix * acc + digitOf c" by linarith
  from Cons.IH [OF Cons.prems(1) this] show ?case by simp
qed

lemma digit_not_space:
  "isDigit c \<Longrightarrow> \<not> isSpace c \<and> c \<noteq> CHR ''-'' \<and> c \<noteq> CHR ''+'' \<and> c \<noteq> CHR ''x'' \<and> c \<noteq> CHR ''X''"
  by (auto simp: isDigit_def isSpace_def)

lemma parseInt_digit_string:
  assumes "digit_string ds"
  shows "parseInt ds = Some (digitsValue 10 0 ds)"
proof -
  from assms obtain c cs where ds: "ds = c # cs" and c: "isDigit c" and cs: "\<forall>x \<in> set cs. isDigit x"
    by (cases ds) (auto simp: digit_string_def)
  from c have n: "\<not> isSpace c" "c \<noteq> CHR ''-''" "c \<noteq> CHR ''+''"
    using digit_not_space by blast+
  from cs have t: "takeWhile isDigit cs = cs" by simp
  have hex: "(case cs of [] \<Rightarrow> False
              | b # q \<Rightarrow> c = CHR ''0'' \<and> (b = CHR ''x'' \<or> b = CHR ''X'')) = False"
  proof (cases cs)
    case Nil
    then show ?thesis by simp
  next
    case (Cons b q)
    with cs have "isDigit b" by simp
    then have "b \<noteq> CHR ''x''" "b \<noteq> CHR ''X''" using digit_not_space by blast+
    with Cons show ?thesis by simp
  qed
  show ?thesis
    using c n unfolding parseInt_def ds Let_def
    by (simp add: hex t del: digitsValue.simps)
qed

lemma durationLoop_number:
  assumes "set patterns \<subseteq> set durationPatterns" and "0 \<le> d0"
  shows "\<exists>d. durationLoop patterns text (Some d0) = Some d \<and> 0 \<le> d"
  using assms(1)
proof (induction patterns)
  case Nil
  with assms(2) show ?case by simp
next
  case (Cons p ps)
  show ?case
  proof (cases "re_match text p")
    case None
    with Cons show ?thesis by simp
  next
    case (Some res)
    obtain m0 caps where res: "res = (m0, caps)" by (cases res)
    from Some res obtain pos inp rest where "run [Re p] pos inp [] = Some (rest, caps)"
      unfolding re_match_def by (blast dest: searchFrom_run)
    with Cons.prems durationPattern_captures [of p pos inp rest caps]
    obtain ds where ds: "digit_string ds" "map_of caps 1 = Some ds" by auto
    with Some res show ?thesis
      by (simp add: parseInt_of_def parseInt_digit_string digitsValue_nonneg)
  qed
qed

lemma durationHours_nonneg:
  "\<exists>d. durationLoop durationPatterns text (Some 1) = Some d \<and> 0 \<le> d"
  by (rule durationLoop_number) simp_all

lemma extractTitle_returns: "\<exists>t. extractTitle text = Inr t"
proof -
  have d: "1 \<in> closed_groups doPattern" by (simp add: doPattern_def)
  have m: "1 \<in> closed_groups meetingPattern" by (simp add: meetingPattern_def)
  have s1: "\<exists>t1. (case re_match text doPattern of
              None \<Rightarrow> Inr ''Event''
            | Some (m0, groups) \<Rightarrow>
                (case map_of groups 1 of
                   None \<Rightarrow> Inl TypeError
                 | Some g \<Rightarrow> Inr (if length (trim g) > 0 then trim g else ''Event''))) = Inr t1"
  proof (cases "re_match text doPattern")
    case None
    then show ?thesis by simp
  next
    case (Some res)
    obtain m0 caps where res: "res = (m0, caps)" by (cases res)
    from re_match_closes [OF _ d] Some res obtain g where "map_of caps 1 = Some g" by blast
    with Some res show ?thesis by simp
  qed
  have s2: "\<exists>t2. (case re_match text meetingPattern of
                   None \<Rightarrow> Inr title1
                 | Some (m0, groups) \<Rightarrow>
                     (case map_of groups 1 of
                        None \<Rightarrow> Inl TypeError
                      | Some g \<Rightarrow>
                          Inr (if length (trim g) > 0
                               then trim g @ '' '' @ pop_last (split_on CHR '' '' m0)
                               else title1))) = Inr t2" for title1
  proof (cases "re_match text meetingPattern")
    case None
    then show ?thesis by simp
  next
    case (Some res)
    obtain m0 caps where res: "res = (m0, caps)" by (cases res)
    from re_match_closes [OF _ m] Some res obtain g where "map_of caps 1 = Some g" by blast
    with Some res show ?thesis by simp
  qed
  from s1 obtain t1 where t1: "(case re_match text doPattern of
              None \<Rightarrow> Inr ''Event''
            | Some (m0, groups) \<Rightarrow>
                (case map_of groups 1 of
                   None \<Rightarrow> Inl TypeError
                 | Some g \<Rightarrow> Inr (if length (trim g) > 0 then trim g else ''Event''))) = Inr t1"
    by blast
  from s2 [of t1] obtain t2 where t2: "(case re_match text meetingPattern of
                   None \<Rightarrow> Inr t1
                 | Some (m0, groups) \<Rightarrow>
                     (case map_of groups 1 of
                        None \<Rightarrow> Inl TypeError
                      | Some g \<Rightarrow>
                          Inr (if length (trim g) > 0
                               then trim g @ '' '' @ pop_last (split_on CHR '' '' m0)
                               else t1))) = Inr t2"
    by blast
  show ?thesis
    unfolding extractTitle_def t1 sum.case t2 Let_def by blast
qed

lemma locationLoop_returns:
  assumes "\<forall>p \<in> set patterns. 1 \<in> closed_groups p"
  shows "\<exists>l. locationLoop patterns text location0 = Inr l"
  using assms
proof (induction patterns)
  case Nil
  then show ?case by simp
next
  case (Cons p ps)
  then have p: "1 \<in> closed_groups p" and ih: "\<exists>l. locationLoop ps text location0 = Inr l" by auto
  show ?case
  proof (cases "re_match text p")
    case None
    with ih show ?thesis by simp
  next
    case (Some res)
    obtain m0 caps where res: "res = (m0, caps)" by (cases res)
    from re_match_closes [OF _ p] Some res obtain g where "map_of caps 1 = Some g" by blast
    with Some res ih show ?thesis by auto
  qed
qed

lemma location_returns: "\<exists>l. locationLoop locationPatterns text ''TBD'' = Inr l"
  by (rule locationLoop_returns) (simp add: locationPatterns_def placeWords_def)


section \<open>Properties of the Date arithmetic\<close>

lemma Day_bounds: "Day x * msPerDay \<le> x \<and> x - msPerDay < Day x * msPerDay"
proof -
  have "x div 86400000 * 86400000 + x mod 86400000 = x" by simp
  moreover have "0 \<le> x mod 86400000" "x mod 86400000 < 86400000" by simp_all
  ultimately show ?thesis unfolding Day_def msPerDay_def by linarith
qed

lemma setHours_near:
  assumes zone: "\<And>t u. \<bar>tz t u\<bar> \<le> msPerDay"
    and h: "0 \<le> h" "h \<le> 23" and m: "0 \<le> m" "m \<le> 59"
    and t: "\<bar>t\<bar> \<le> maxTime - 3 * msPerDay"
  shows "\<exists>s. setHours tz (Some t) h m 0 0 = Some s \<and> \<bar>s - t\<bar> \<le> 3 * msPerDay"
proof -
  let ?local = "LocalTime tz t"
  let ?date = "MakeDate (Day ?local) (MakeTime h m 0 0)"
  have o1: "\<bar>tz t True\<bar> \<le> msPerDay" and o2: "\<bar>tz ?date False\<bar> \<le> msPerDay"
    using zone by blast+
  have d: "Day ?local * msPerDay \<le> ?local" "?local - msPerDay < Day ?local * msPerDay"
    using Day_bounds [of ?local] by blast+
  have mt: "0 \<le> MakeTime h m 0 0" "MakeTime h m 0 0 < msPerDay"
    using h m by (simp_all add: MakeTime_def msPerHour_def msPerMinute_def msPerDay_def)
  have near: "\<bar>UTC tz ?date - t\<bar> \<le> 3 * msPerDay"
    using o1 o2 d mt unfolding UTC_def MakeDate_def LocalTime_def by linarith
  with t have "\<bar>UTC tz ?date\<bar> \<le> maxTime" by linarith
  with near show ?thesis by (simp add: setHours_def TimeClip_def)
qed

text \<open>
  In a zone with a fixed offset, the fallback instant of generateSuggestedTimes is 09:00
  local time on the day after the local day of the original start.
\<close>

lemma nextDay_nine_fixedZone:
  assumes t: "\<bar>t\<bar> \<le> maxTime - 3 * msPerDay" and off: "\<bar>off\<bar> \<le> msPerDay"
  shows "setHours (fixedZone off) (setDate_getDate_plus1 (fixedZone off) (Some t)) 9 0 0 0 =
           Some ((Day (t + off) + 1) * msPerDay + 9 * msPerHour - off)"
proof -
  have split: "(t + off) div 86400000 * 86400000 + (t + off) mod 86400000 = t + off" by simp
  have next_day: "MakeDate (Day (t + off) + 1) (TimeWithinDay (t + off)) - off = t + msPerDay"
    using split unfolding MakeDate_def Day_def TimeWithinDay_def msPerDay_def
    by (simp add: algebra_simps)
  from t have "\<bar>t + msPerDay\<bar> \<le> maxTime" by (simp add: msPerDay_def maxTime_def)
  with next_day have moved: "setDate_getDate_plus1 (fixedZone off) (Some t) = Some (t + msPerDay)"
    by (simp add: setDate_getDate_plus1_def fixedZone_def LocalTime_def UTC_def TimeClip_def)
  have day: "Day (t + msPerDay + off) = Day (t + off) + 1"
    unfolding Day_def msPerDay_def by (simp add: add.commute add.left_commute)
  have b: "Day (t + off) * msPerDay \<le> t + off" "t + off - msPerDay < Day (t + off) * msPerDay"
    using Day_bounds [of "t + off"] by blast+
  from t off b have "\<bar>(Day (t + off) + 1) * msPerDay + 9 * msPerHour - off\<bar> \<le> maxTime"
    unfolding msPerDay_def msPerHour_def maxTime_def by (simp add: algebra_simps abs_le_iff)
  then have "setHours (fixedZone off) (Some (t + msPerDay)) 9 0 0 0 =
           Some ((Day (t + off) + 1) * msPerDay + 9 * msPerHour - off)"
    by (simp add: setHours_def fixedZone_def LocalTime_def UTC_def day MakeDate_def MakeTime_def
          TimeClip_def)
  then show ?thesis by (simp only: moved)
qed

lemma timeLoop_step:
  "timeLoop tz (p # ps) text eventTime = timeLoop tz ps text eventTime \<or>
   (\<exists>h m. 0 \<le> h \<and> h \<le> 23 \<and> 0 \<le> m \<and> m \<le> 59 \<and>
      timeLoop tz (p # ps) text eventTime = setHours tz eventTime h m 0 0)"
proof (cases "re_match text p")
  case None
  then show ?thesis by simp
next
  case (Some res)
  obtain m0 groups where res: "res = (m0, groups)" by (cases res)
  define hours where "hours = parseInt_of (map_of groups 1)"
  define minutes where
    "minutes = (case map_of groups 2 of None \<Rightarrow> Some 0 | Some g \<Rightarrow> if g = [] then Some 0 else parseInt g)"
  define ampm where "ampm = map_option toLowerCase (map_of groups 3)"
  have unfolded: "timeLoop tz (p # ps) text eventTime =
      (case hours of
         None \<Rightarrow> timeLoop tz ps text eventTime
       | Some h \<Rightarrow>
           if h < 0 \<or> h > 23 then timeLoop tz ps text eventTime
           else
             (case minutes of
                None \<Rightarrow> timeLoop tz ps text eventTime
              | Some mi \<Rightarrow>
                  if mi < 0 \<or> mi > 59 then timeLoop tz ps text eventTime
                  else
                    (let h1 = (if ampm = Some ''pm'' \<and> h \<noteq> 12 then h + 12 else h);
                         h2 = (if ampm = Some ''am'' \<and> h1 = 12 then 0 else h1)
                     in if h2 < 0 \<or> h2 > 23 then timeLoop tz ps text eventTime
                        else setHours tz eventTime h2 mi 0 0)))"
    unfolding hours_def minutes_def ampm_def using Some res by (simp add: Let_def)
  show ?thesis
  proof (cases hours)
    case None
    with unfolded show ?thesis by simp
  next
    case h: (Some h)
    show ?thesis
    proof (cases minutes)
      case None
      with unfolded h show ?thesis by simp
    next
      case mi: (Some mi)
      define h1 where "h1 = (if ampm = Some ''pm'' \<and> h \<noteq> 12 then h + 12 else h)"
      define h2 where "h2 = (if ampm = Some ''am'' \<and> h1 = 12 then 0 else h1)"
      from unfolded h mi have u: "timeLoop tz (p # ps) text eventTime =
          (if h < 0 \<or> h > 23 then timeLoop tz ps text eventTime
           else if mi < 0 \<or> mi > 59 then timeLoop tz ps text eventTime
           else if h2 < 0 \<or> h2 > 23 then timeLoop tz ps text eventTime
           else setHours tz eventTime h2 mi 0 0)"
        unfolding h1_def h2_def by (simp add: Let_def)
      show ?thesis
      proof (cases "h < 0 \<or> h > 23 \<or> mi < 0 \<or> mi > 59 \<or> h2 < 0 \<or> h2 > 23")
        case True
        with u have "timeLoop tz (p # ps) text eventTime = timeLoop tz ps text eventTime"
          by auto
        then show ?thesis by blast
      next
        case False
        with u have "timeLoop tz (p # ps) text eventTime = setHours tz eventTime h2 mi 0 0"
          by auto
        with False show ?thesis
          by (intro disjI2 exI [of _ h2] exI [of _ mi]) (simp add: not_less)
      qed
    qed
  qed
qed

lemma timeLoop_near:
  assumes zone: "\<And>t u. \<bar>tz t u\<bar> \<le> msPerDay" and t: "\<bar>t\<bar> \<le> maxTime - 3 * msPerDay"
  shows "\<exists>s. timeLoop tz ps text (Some t) = Some s \<and> \<bar>s - t\<bar> \<le> 3 * msPerDay"
proof (induction ps)
  case Nil
  then show ?case by (simp add: msPerDay_def)
next
  case (Cons p ps)
  from timeLoop_step [of tz p ps "text" "Some t"] show ?case
  proof
    assume "timeLoop tz (p # ps) text (Some t) = timeLoop tz ps text (Some t)"
    with Cons.IH show ?thesis by simp
  next
    assume "\<exists>h m. 0 \<le> h \<and> h \<le> 23 \<and> 0 \<le> m \<and> m \<le> 59 \<and>
      timeLoop tz (p # ps) text (Some t) = setHours tz (Some t) h m 0 0"
    then obtain h m where hm: "0 \<le> h" "h \<le> 23" "0 \<le> m" "m \<le> 59"
      and eq: "timeLoop tz (p # ps) text (Some t) = setHours tz (Some t) h m 0 0" by blast
    from setHours_near [of tz, OF zone hm t] eq show ?thesis by simp
  qed
qed

lemma eventDateOf_cases:
  "eventDateOf now tomorrow text = now \<or> eventDateOf now tomorrow text = tomorrow \<or>
   eventDateOf now tomorrow text = newDate (num_add (getTime now) (Some 604800000))"
  by (simp add: eventDateOf_def Let_def)

lemma resolveEventTime_valid:
  assumes zone: "\<And>t u. \<bar>tz t u\<bar> \<le> msPerDay" and clock: "\<bar>clock\<bar> \<le> 8000000000000000"
  shows "\<exists>s. resolveEventTime tz clock text (Some clock) (Some (clock + 86400000)) = Some s \<and>
           \<bar>s - clock\<bar> \<le> 13 * msPerDay"
proof -
  let ?date = "eventDateOf (Some clock) (Some (clock + 86400000)) text"
  from clock have w: "newDate (num_add (getTime (Some clock)) (Some 604800000)) = Some (clock + 604800000)"
    by (simp add: newDate_def num_add_def getTime_def TimeClip_def maxTime_def)
  from eventDateOf_cases [of "Some clock" "Some (clock + 86400000)" "text"] w
  obtain e where e: "?date = Some e" "clock \<le> e" "e \<le> clock + 7 * msPerDay"
    by (auto simp: msPerDay_def)
  from e clock have eb: "\<bar>e\<bar> \<le> maxTime - 3 * msPerDay"
    by (simp add: maxTime_def msPerDay_def)
  then have copied: "newDate (Some e) = Some e"
    by (simp add: newDate_def TimeClip_def msPerDay_def)
  have fourteen: "(0::int) \<le> 14" "(14::int) \<le> 23" "(0::int) \<le> 0" "(0::int) \<le> 59" by simp_all
  from setHours_near [of tz, OF zone fourteen eb]
  obtain s1 where s1: "setHours tz (Some e) 14 0 0 0 = Some s1" "\<bar>s1 - e\<bar> \<le> 3 * msPerDay" by blast
  from s1 e clock have s1b: "\<bar>s1\<bar> \<le> maxTime - 3 * msPerDay"
    by (simp add: maxTime_def msPerDay_def)
  from timeLoop_near [of tz, OF zone s1b, of timePatterns "text"]
  obtain s2 where s2: "timeLoop tz timePatterns text (Some s1) = Some s2" "\<bar>s2 - s1\<bar> \<le> 3 * msPerDay"
    by blast
  have "resolveEventTime tz clock text (Some clock) (Some (clock + 86400000)) = Some s2"
    by (simp add: resolveEventTime_def Let_def getTime_def isNaN_def e(1) copied s1(1) s2(1))
  moreover from s2 s1 e have "\<bar>s2 - clock\<bar> \<le> 13 * msPerDay"
    by (simp add: msPerDay_def)
  ultimately show ?thesis by blast
qed


section \<open>Properties of the extraction\<close>

lemma buildResult_order:
  assumes "buildResult eventTime (Some d) capitalized place text = Inr ev" and "0 \<le> d"
  shows "startISO ev \<le> endISO ev \<and> (d \<noteq> 0 \<longrightarrow> startISO ev < endISO ev)"
proof (cases eventTime)
  case None
  with assms(1) show ?thesis by (simp add: buildResult_def toISOString_def Let_def)
next
  case (Some s)
  show ?thesis
  proof (cases "\<bar>s + d * 3600000\<bar> > maxTime")
    case True
    with Some assms show ?thesis
      by (auto simp: buildResult_def toISOString_def Let_def newDate_def num_add_def num_mul_def
            getTime_def isNaN_def TimeClip_def split: if_splits)
  next
    case False
    with Some assms show ?thesis
      by (auto simp: buildResult_def toISOString_def Let_def newDate_def num_add_def num_mul_def
            getTime_def isNaN_def TimeClip_def split: if_splits)
  qed
qed

lemma buildResult_valid:
  assumes "\<bar>s\<bar> \<le> maxTime - msPerHour" and "0 \<le> d"
  shows "buildResult (Some s) (Some d) capitalized place text =
           Inr \<lparr>title = capitalized, startISO = s,
                endISO = (if s + d * 3600000 \<le> maxTime then s + d * 3600000 else s + 3600000),
                location = place, description = text\<rparr>"
  using assms
  by (auto simp: buildResult_def toISOString_def Let_def newDate_def num_add_def num_mul_def
        getTime_def isNaN_def TimeClip_def msPerHour_def)

lemma createSmartFallback_try_built:
  assumes "createSmartFallback_try tz clock text = Inr ev"
  shows "\<exists>eventTime capitalized place.
           buildResult eventTime (durationLoop durationPatterns text (Some 1)) capitalized place text = Inr ev"
proof (cases "isNaN (getTime (TimeClip clock)) \<or>
              isNaN (getTime (newDate (num_add (getTime (TimeClip clock)) (Some (24 * 60 * 60 * 1000)))))")
  case True
  with assms show ?thesis
    by (auto simp: createSmartFallback_try_def Let_def isNaN_def getTime_def toISOString_def
          split: sum.splits option.splits)
next
  case False
  with assms show ?thesis
    by (auto simp: createSmartFallback_try_def Let_def split: sum.splits)
qed

lemma createSmartFallback_order:
  assumes "createSmartFallback tz clock text userTimezone = Inr ev"
  shows "startISO ev \<le> endISO ev \<and>
         (durationLoop durationPatterns text (Some 1) \<noteq> Some 0 \<longrightarrow> startISO ev < endISO ev)"
proof (cases "createSmartFallback_try tz clock text")
  case (Inl e)
  with assms show ?thesis
    by (auto simp: createSmartFallback_def Let_def toISOString_def newDate_def num_add_def getTime_def
          TimeClip_def split: sum.splits option.splits if_splits)
next
  case (Inr r)
  with assms have "r = ev" by (simp add: createSmartFallback_def)
  with Inr createSmartFallback_try_built obtain eventTime capitalized place where
    b: "buildResult eventTime (durationLoop durationPatterns text (Some 1)) capitalized place text = Inr ev"
    by blast
  from durationHours_nonneg obtain d where d: "durationLoop durationPatterns text (Some 1) = Some d" "0 \<le> d"
    by blast
  from buildResult_order [of eventTime d capitalized place "text" ev] b d show ?thesis by simp
qed

lemma createSmartFallback_sane:
  assumes zone: "\<And>t u. \<bar>tz t u\<bar> \<le> msPerDay" and clock: "\<bar>clock\<bar> \<le> 8000000000000000"
  shows "\<exists>capitalized place s d.
           durationLoop durationPatterns text (Some 1) = Some d \<and> 0 \<le> d \<and>
           \<bar>s - clock\<bar> \<le> 13 * msPerDay \<and>
           createSmartFallback tz clock text userTimezone =
             Inr \<lparr>title = capitalized, startISO = s,
                  endISO = (if s + d * 3600000 \<le> maxTime then s + d * 3600000 else s + 3600000),
                  location = place, description = text\<rparr>"
proof -
  from clock have now: "TimeClip clock = Some clock"
    by (simp add: TimeClip_def maxTime_def)
  from clock have tomorrow: "newDate (num_add (Some clock) (Some 86400000)) = Some (clock + 86400000)"
    by (simp add: newDate_def num_add_def TimeClip_def maxTime_def)
  from extractTitle_returns obtain capitalized where t: "extractTitle text = Inr capitalized" by blast
  from location_returns obtain place where l: "locationLoop locationPatterns text ''TBD'' = Inr place"
    by blast
  from durationHours_nonneg obtain d where d: "durationLoop durationPatterns text (Some 1) = Some d" "0 \<le> d"
    by blast
  from resolveEventTime_valid [of tz, OF zone clock] obtain s where
    s: "resolveEventTime tz clock text (Some clock) (Some (clock + 86400000)) = Some s"
       "\<bar>s - clock\<bar> \<le> 13 * msPerDay" by blast
  from s(2) clock have "\<bar>s\<bar> \<le> maxTime - msPerHour"
    by (simp add: maxTime_def msPerHour_def msPerDay_def)
  from buildResult_valid [OF this d(2)]
  have "createSmartFallback_try tz clock text =
          Inr \<lparr>title = capitalized, startISO = s,
               endISO = (if s + d * 3600000 \<le> maxTime then s + d * 3600000 else s + 3600000),
               location = place, description = text\<rparr>"
    by (simp add: createSmartFallback_try_def now tomorrow Let_def isNaN_def getTime_def t l d(1) s(1))
  then have "createSmartFallback tz clock text userTimezone =
          Inr \<lparr>title = capitalized, startISO = s,
               endISO = (if s + d * 3600000 \<le> maxTime then s + d * 3600000 else s + 3600000),
               location = place, description = text\<rparr>"
    by (simp add: createSmartFallback_def)
  with d s(2) show ?thesis by blast
qed


text \<open>
  C2 as stated fails: for the text \<open>nap for 0 hours\<close> the deterministic extractor returns
  an event that ends at the instant it starts.
\<close>

theorem zero_hours_counterexample:
  "\<not> (case createSmartFallback (fixedZone 0) 1757246400000 ''nap for 0 hours'' None of
         Inl e \<Rightarrow> False
       | Inr ev \<Rightarrow> startISO ev < endISO ev)"
  by code_simp

text \<open>
  C2, amended: every event the deterministic extractor returns satisfies start \<open>\<le>\<close> end,
  and start \<open><\<close> end unless the duration resolved from the text is 0 hours; and it does
  return an event whenever the clock reads an instant within 8 * 10^15 ms of the epoch and
  the zone offsets are at most a day. (For every text of code units below 256, the empty
  text included.)
\<close>

theorem createSmartFallback_start_le_end:
  "(createSmartFallback tz clock text userTimezone = Inr ev \<longrightarrow>
      startISO ev \<le> endISO ev \<and>
      (durationLoop durationPatterns text (Some 1) \<noteq> Some 0 \<longrightarrow> startISO ev < endISO ev)) \<and>
   ((\<forall>t u. \<bar>tz t u\<bar> \<le> msPerDay) \<and> \<bar>clock\<bar> \<le> 8000000000000000 \<longrightarrow>
      (\<exists>event. createSmartFallback tz clock text userTimezone = Inr event))"
proof -
  have order: "createSmartFallback tz clock text userTimezone = Inr ev \<longrightarrow>
      startISO ev \<le> endISO ev \<and>
      (durationLoop durationPatterns text (Some 1) \<noteq> Some 0 \<longrightarrow> startISO ev < endISO ev)"
    using createSmartFallback_order [of tz clock "text" userTimezone ev] by blast
  have returns: "(\<forall>t u. \<bar>tz t u\<bar> \<le> msPerDay) \<and> \<bar>clock\<bar> \<le> 8000000000000000 \<longrightarrow>
      (\<exists>event. createSmartFallback tz clock text userTimezone = Inr event)"
  proof (rule impI)
    assume "(\<forall>t u. \<bar>tz t u\<bar> \<le> msPerDay) \<and> \<bar>clock\<bar> \<le> 8000000000000000"
    then have zone: "\<And>t u. \<bar>tz t u\<bar> \<le> msPerDay" and clock: "\<bar>clock\<bar> \<le> 8000000000000000"
      by blast+
    from createSmartFallback_sane [of tz, OF zone clock, of "text" userTimezone]
    show "\<exists>event. createSmartFallback tz clock text userTimezone = Inr event" by blast
  qed
  from order returns show ?thesis by (rule conjI)
qed

theorem createSmartFallback_start_le_end_witness:
  "createSmartFallback (fixedZone 0) 1757246400000 ''meeting at 3pm today'' None =
     Inr \<lparr>title = utf16 ''Meeting'', startISO = 1757257200000, endISO = 1757260800000,
          location = ''3pm'', description = ''meeting at 3pm today''\<rparr> \<and>
   durationLoop durationPatterns ''meeting at 3pm today'' (Some 1) \<noteq> Some 0 \<and>
   startISO \<lparr>title = utf16 ''Meeting'', startISO = 1757257200000, endISO = 1757260800000,
          location = ''3pm'', description = ''meeting at 3pm today''\<rparr>
     < endISO \<lparr>title = utf16 ''Meeting'', startISO = 1757257200000, endISO = 1757260800000,
          location = ''3pm'', description = ''meeting at 3pm today''\<rparr>"
proof -
  let ?ev = "\<lparr>title = utf16 ''Meeting'', startISO = 1757257200000, endISO = 1757260800000,
          location = ''3pm'', description = ''meeting at 3pm today''\<rparr>"
  have r: "createSmartFallback (fixedZone 0) 1757246400000 ''meeting at 3pm today'' None = Inr ?ev"
    by code_simp
  have d: "durationLoop durationPatterns ''meeting at 3pm today'' (Some 1) \<noteq> Some 0"
    by code_simp
  from createSmartFallback_start_le_end [of "fixedZone 0" 1757246400000 "''meeting at 3pm today''" None ?ev]
    r d
  have "startISO ?ev < endISO ?ev" by blast
  with r d show ?thesis by blast
qed

text \<open>
  C9 as stated fails: for the text \<open>study 2400000000 hours\<close> the resolved duration is
  2400000000 hours, and the returned event lasts one hour.
\<close>

theorem huge_duration_counterexample:
  "\<not> (case createSmartFallback (fixedZone 0) 1757246400000 ''study 2400000000 hours'' None of
         Inl e \<Rightarrow> False
       | Inr ev \<Rightarrow>
           (case durationLoop durationPatterns ''study 2400000000 hours'' (Some 1) of
              None \<Rightarrow> False
            | Some d \<Rightarrow> endISO ev - startISO ev = d * msPerHour))"
  by code_simp

text \<open>
  C9, amended: with the clock within 8 * 10^15 ms of the epoch and zone offsets of at most
  a day, the deterministic extractor returns, for every text, an event with
  end - start = d hours, where d is the number resolved from the first duration pattern
  that matches (1 when none matches, and never negative), as long as start + d hours is a
  representable instant; when it is not, the event lasts exactly 1 hour. (For every text
  of code units below 256.)
\<close>

theorem createSmartFallback_duration:
  assumes "\<And>t u. \<bar>tz t u\<bar> \<le> msPerDay" and "\<bar>clock\<bar> \<le> 8000000000000000"
  shows "\<exists>ev d. createSmartFallback tz clock text userTimezone = Inr ev \<and>
           durationLoop durationPatterns text (Some 1) = Some d \<and> 0 \<le> d \<and>
           endISO ev - startISO ev =
             (if startISO ev + d * msPerHour \<le> maxTime then d * msPerHour else msPerHour) \<and>
           (list_all (\<lambda>pattern. re_match text pattern = None) durationPatterns \<longrightarrow> d = 1)"
proof -
  from createSmartFallback_sane [of tz, OF assms, of "text" userTimezone]
  obtain capitalized place s d where
    d: "durationLoop durationPatterns text (Some 1) = Some d" "0 \<le> d" and
    r: "createSmartFallback tz clock text userTimezone =
             Inr \<lparr>title = capitalized, startISO = s,
                  endISO = (if s + d * 3600000 \<le> maxTime then s + d * 3600000 else s + 3600000),
                  location = place, description = text\<rparr>"
    by blast
  have none: "list_all (\<lambda>pattern. re_match text pattern = None) durationPatterns \<longrightarrow> d = 1"
    using d(1) by (auto simp: durationPatterns_def)
  show ?thesis
    by (intro exI [of _ "\<lparr>title = capitalized, startISO = s,
                  endISO = (if s + d * 3600000 \<le> maxTime then s + d * 3600000 else s + 3600000),
                  location = place, description = text\<rparr>"] exI [of _ d])
       (simp add: r d none msPerHour_def)
qed

theorem createSmartFallback_duration_witness:
  "createSmartFallback (fixedZone 0) 1757246400000 ''gym session tomorrow for 2 hours at the arc gym'' None =
     Inr \<lparr>title = utf16 ''Gym Session'', startISO = 1757340000000, endISO = 1757347200000,
          location = ''the'', description = ''gym session tomorrow for 2 hours at the arc gym''\<rparr> \<and>
   durationLoop durationPatterns ''gym session tomorrow for 2 hours at the arc gym'' (Some 1) = Some 2 \<and>
   (1757347200000 :: int) - 1757340000000 = 2 * msPerHour"
proof -
  let ?text = "''gym session tomorrow for 2 hours at the arc gym''"
  have zone: "\<bar>fixedZone 0 t u\<bar> \<le> msPerDay" for t u
    by (simp add: fixedZone_def msPerDay_def)
  have clock: "\<bar>1757246400000 :: int\<bar> \<le> 8000000000000000" by simp
  have r: "createSmartFallback (fixedZone 0) 1757246400000 ?text None =
     Inr \<lparr>title = utf16 ''Gym Session'', startISO = 1757340000000, endISO = 1757347200000,
          location = ''the'', description = ?text\<rparr>"
    by code_simp
  have d: "durationLoop durationPatterns ?text (Some 1) = Some 2"
    by code_simp
  from createSmartFallback_duration [of "fixedZone 0" 1757246400000 ?text None, OF zone clock] r d
  have "(1757347200000 :: int) - 1757340000000 =
          (if (1757340000000 :: int) + 2 * msPerHour \<le> maxTime then 2 * msPerHour else msPerHour)"
    by auto
  then have "(1757347200000 :: int) - 1757340000000 = 2 * msPerHour"
    by (simp add: msPerHour_def maxTime_def)
  with r d show ?thesis by blast
qed

text \<open>
  The no-break space U+00A0 is white space to the patterns: between the number and the unit
  it is matched by \<^verbatim>\<open>\s*\<close>, so \<open>nap 0\<close>, U+00A0, \<open>hours\<close> resolves to 0 hours and an
  event that ends at the instant it starts, and \<open>nap 2\<close>, U+00A0, \<open>hours\<close> to an event of
  2 hours.
\<close>

lemma createSmartFallback_no_break_space_example:
  "durationLoop durationPatterns (''nap 0'' @ [CHR 0xA0] @ ''hours'') (Some 1) = Some 0 \<and>
   createSmartFallback (fixedZone 0) 1757246400000 (''nap 0'' @ [CHR 0xA0] @ ''hours'') None =
     Inr \<lparr>title = utf16 ''Nap'', startISO = 1757340000000, endISO = 1757340000000,
          location = ''TBD'', description = ''nap 0'' @ [CHR 0xA0] @ ''hours''\<rparr> \<and>
   createSmartFallback (fixedZone 0) 1757246400000 (''nap 2'' @ [CHR 0xA0] @ ''hours'') None =
     Inr \<lparr>title = utf16 ''Nap'', startISO = 1757340000000, endISO = 1757347200000,
          location = ''TBD'', description = ''nap 2'' @ [CHR 0xA0] @ ''hours''\<rparr>"
  by code_simp

text \<open>
  Capitalising a word maps its first character by \<^verbatim>\<open>toUpperCase\<close>: U+00E9 becomes
  U+00C9, and U+00FF becomes U+0178, a code unit above 255; the sharp s inside a word stays.
\<close>

lemma extractTitle_latin1_example:
  "extractTitle ([CHR 0xE9] @ ''cole de ski'') = Inr (0xC9 # utf16 ''cole Ski'') \<and>
   extractTitle ([CHR 0xFF] @ ''es stra'' @ [CHR 0xDF] @ ''e'') =
     Inr (0x178 # utf16 (''es Stra'' @ [CHR 0xDF] @ ''e''))"
  by code_simp

text \<open>
  C10: the result of the deterministic extractor does not depend on its timezone argument:
  the same text at the same clock reading gives the same result for any two timezone
  arguments (the times are resolved in the zone of the process).
\<close>

theorem createSmartFallback_ignores_userTimezone:
  "createSmartFallback tz clock text timezone1 = createSmartFallback tz clock text timezone2"
  by (simp add: createSmartFallback_def)

text \<open>
  The zone of the process does matter: the same text and clock give another start in a
  zone four hours behind UTC than in UTC.
\<close>

lemma createSmartFallback_process_zone_example:
  "createSmartFallback (fixedZone 0) 1757246400000 ''lunch'' (Some ''America/New_York'') \<noteq>
   createSmartFallback (fixedZone (- 14400000)) 1757246400000 ''lunch'' (Some ''America/New_York'')"
  by code_simp

text \<open>
  C4: at the clock reading 2025-09-07T12:00:00Z in a zone four hours behind UTC, the text
  \<open>gym session tomorrow for 2 hours at the arc gym\<close> gives the title \<open>Gym Session\<close>,
  a start at 14:00 local time of the next day (2025-09-08T18:00:00Z) and a duration of
  2 hours, as claimed, but the location \<open>the\<close>, not \<open>Arc Gym\<close>.
\<close>

theorem createSmartFallback_gym_session:
  "createSmartFallback (fixedZone (- 14400000)) 1757246400000
     ''gym session tomorrow for 2 hours at the arc gym'' (Some ''America/New_York'') =
   Inr \<lparr>title = utf16 ''Gym Session'', startISO = 1757354400000, endISO = 1757361600000,
        location = ''the'', description = ''gym session tomorrow for 2 hours at the arc gym''\<rparr>"
  by code_simp

text \<open>
  C1: with the first service configured, a completion that holds no JSON object makes
  processTextToEvent return \<^verbatim>\<open>undefined\<close>, whatever the text (and raise a RangeError when
  the timezone name is not one the platform knows): the deterministic extractor is not
  reached.
\<close>

theorem processTextToEvent_openai_no_json:
  "processTextToEvent validTimeZone
     \<lparr>openai = Some (Returns (Some ''Sorry, I cannot help with that.'')), ollama = secondService\<rparr>
     JSON_parse tz clock text userTimezone =
   (if validTimeZone (case userTimezone of None \<Rightarrow> ''UTC'' | Some z \<Rightarrow> if z = [] then ''UTC'' else z)
    then Inr Undefined else Inl RangeError)"
proof -
  have "re_match (trim ''Sorry, I cannot help with that.'') jsonPattern = None"
    by code_simp
  then show ?thesis
    by (simp add: processTextToEvent_def processTextToEvent_try_def Let_def)
qed

text \<open>
  The same happens when the JSON object lacks a required field, or does not parse.
\<close>

lemma processTextToEvent_openai_missing_field:
  "processTextToEvent (\<lambda>z. True)
     \<lparr>openai = Some (Returns (Some ''{\"title\": \"Gym\"}'')), ollama = None\<rparr>
     (\<lambda>s. if s = ''{\"title\": \"Gym\"}'' then Some [(''title'', JStr ''Gym'')] else None)
     (fixedZone 0) 1757246400000 ''gym tomorrow'' None = Inr Undefined"
  by code_simp

text \<open>
  Without the first service, no path returns \<^verbatim>\<open>undefined\<close>: every failure of the second
  service ends in the deterministic extractor.
\<close>

lemma processTextToEvent_without_openai:
  "openai svc = None \<Longrightarrow>
     processTextToEvent validTimeZone svc JSON_parse tz clock text userTimezone \<noteq> Inr Undefined"
  by (auto simp: processTextToEvent_def processTextToEvent_try_def Let_def
        split: option.splits call.splits sum.splits prod.splits if_splits)


end
